theory Spec2Isabelle
  imports Main
begin

section \<open>Build configuration\<close>

text \<open>
  \<^verbatim>\<open>src/app/main.cpp\<close> is compiled under preprocessor switches; each switch the
  lifecycle code branches on is a field of the build record, and every \<^verbatim>\<open>#ifdef\<close> of
  the source is an \<open>if\<close> on it.
\<close>

record build =
  DISABLE_GUI :: bool
  Q_OS_WIN :: bool
  Q_OS_UNIX :: bool
  Q_OS_MAC :: bool
  Q_OS_HAIKU :: bool
  STACKTRACE_WIN :: bool
  QBT_VERSION :: string

section \<open>QString operations used by the parser\<close>

definition startsWith :: "string \<Rightarrow> string \<Rightarrow> bool" where
  "startsWith s p = (take (length p) s = p)"

definition endsWith :: "string \<Rightarrow> string \<Rightarrow> bool" where
  "endsWith s p = (length p \<le> length s \<and> drop (length s - length p) s = p)"

text \<open>\<^verbatim>\<open>QString::split(sep)\<close> with the default \<^verbatim>\<open>KeepEmptyParts\<close>: one part more than
  there are separators.\<close>

fun split_acc :: "char \<Rightarrow> string \<Rightarrow> string \<Rightarrow> string list" where
  "split_acc sep cur [] = [rev cur]"
| "split_acc sep cur (c # cs) =
     (if c = sep then rev cur # split_acc sep [] cs else split_acc sep (c # cur) cs)"

definition split :: "string \<Rightarrow> char \<Rightarrow> string list" where
  "split s sep = split_acc sep [] s"

text \<open>
  \<^verbatim>\<open>QString::toInt()\<close> is Qt library code. Its documented contract: the string converted
  to an \<^verbatim>\<open>int\<close> in base 10, and 0 if the conversion fails. Leading and trailing
  white space (what \<^verbatim>\<open>QChar::isSpace\<close> accepts) is skipped, one sign is accepted, and a
  value that does not fit 32 bits is a failed conversion. A \<open>char\<close> stands for the
  \<^verbatim>\<open>QChar\<close> with the same code, U+0000 to U+00FF; in that range \<^verbatim>\<open>QChar::isSpace\<close>
  accepts the blank, the controls U+0009 to U+000D, U+0085 and the no-break space
  U+00A0.
\<close>

definition isSpace :: "char \<Rightarrow> bool" where
  "isSpace c =
     (let n = (of_char c :: nat)
      in n = 32 \<or> (9 \<le> n \<and> n \<le> 13) \<or> n = 133 \<or> n = 160)"

definition isDigit :: "char \<Rightarrow> bool" where
  "isDigit c = (let n = (of_char c :: nat) in 48 \<le> n \<and> n \<le> 57)"

definition digitValue :: "char \<Rightarrow> int" where
  "digitValue c = int (of_char c) - 48"

fun digitsToInt :: "int \<Rightarrow> string \<Rightarrow> int option" where
  "digitsToInt acc [] = Some acc"
| "digitsToInt acc (c # cs) =
     (if isDigit c then digitsToInt (10 * acc + digitValue c) cs else None)"

definition trimmed :: "string \<Rightarrow> string" where
  "trimmed s = rev (dropWhile isSpace (rev (dropWhile isSpace s)))"

definition toInt :: "string \<Rightarrow> int" where
  "toInt s =
     (let t = trimmed s;
          neg = (t \<noteq> [] \<and> hd t = CHR ''-'');
          ds = (if t \<noteq> [] \<and> (hd t = CHR ''-'' \<or> hd t = CHR ''+'') then tl t else t)
      in if ds = [] then 0
         else (case digitsToInt 0 ds of
                 None \<Rightarrow> 0
               | Some v \<Rightarrow>
                   (let n = (if neg then - v else v)
                    in if - 2147483648 \<le> n \<and> n \<le> 2147483647 then n else 0)))"

section \<open>The parsed command line\<close>

text \<open>
  \<^verbatim>\<open>struct QBtCommandLineParameters\<close>. The C++ struct has \<^verbatim>\<open>showVersion\<close> only off
  Windows, \<^verbatim>\<open>noSplash\<close> only in GUI builds and \<^verbatim>\<open>shouldDaemonize\<close> only in
  \<^verbatim>\<open>DISABLE_GUI\<close> builds; a field absent from a build is never written and stays
  \<open>False\<close> here.
\<close>

record QBtCommandLineParameters =
  showHelp :: bool
  showVersion :: bool
  noSplash :: bool
  shouldDaemonize :: bool
  webUiPort :: int
  torrents :: "string list"
  unknownParameter :: string

text \<open>The preferences store (\<^verbatim>\<open>Preferences::instance()\<close>), as far as \<^verbatim>\<open>main.cpp\<close>
  reads and writes it.\<close>

record preferences =
  prefWebUiPort :: int
  prefAcceptedLegal :: bool
  prefSplashScreenDisabled :: bool

text \<open>The constructor \<^verbatim>\<open>QBtCommandLineParameters()\<close> (lines 104-116).\<close>

definition QBtCommandLineParameters_init :: "build \<Rightarrow> preferences \<Rightarrow> QBtCommandLineParameters" where
  "QBtCommandLineParameters_init cfg pr =
     \<lparr> showHelp = False,
       showVersion = False,
       noSplash = (if \<not> DISABLE_GUI cfg then prefSplashScreenDisabled pr else False),
       shouldDaemonize = False,
       webUiPort = prefWebUiPort pr,
       torrents = [],
       unknownParameter = [] \<rparr>"

text \<open>The file system as \<^verbatim>\<open>QFileInfo\<close> shows it to the parser.\<close>

record filesystem =
  fileExists :: "string \<Rightarrow> bool"
  absoluteFilePath :: "string \<Rightarrow> string"

text \<open>The test of line 296-297: the token is treated as an option.\<close>

definition isFlag :: "string \<Rightarrow> bool" where
  "isFlag arg = ((startsWith arg ''--'' \<and> \<not> endsWith arg ''.torrent'') \<or>
                 (startsWith arg ''-'' \<and> length arg = 2))"

text \<open>The body of the \<^verbatim>\<open>for\<close> loop of \<^verbatim>\<open>parseCommandLine\<close> (lines 293-336), over the
  arguments still to read; \<^verbatim>\<open>break\<close> is the branch without a recursive call.\<close>

fun parseLoop :: "build \<Rightarrow> filesystem \<Rightarrow> QBtCommandLineParameters \<Rightarrow> string list
                  \<Rightarrow> QBtCommandLineParameters" where
  "parseLoop cfg fs result [] = result"
| "parseLoop cfg fs result (arg # rest) =
     (if isFlag arg then
        (if arg = ''-h'' \<or> arg = ''--help'' then
           parseLoop cfg fs (result\<lparr>showHelp := True\<rparr>) rest
         else if \<not> Q_OS_WIN cfg \<and> (arg = ''-v'' \<or> arg = ''--version'') then
           parseLoop cfg fs (result\<lparr>showVersion := True\<rparr>) rest
         else if startsWith arg ''--webui-port='' then
           (let parts = split arg (CHR ''='')
            in if length parts = 2
               then parseLoop cfg fs (result\<lparr>webUiPort := toInt (last parts)\<rparr>) rest
               else parseLoop cfg fs result rest)
         else if \<not> DISABLE_GUI cfg \<and> arg = ''--no-splash'' then
           parseLoop cfg fs (result\<lparr>noSplash := True\<rparr>) rest
         else if DISABLE_GUI cfg \<and> (arg = ''-d'' \<or> arg = ''--daemon'') then
           parseLoop cfg fs (result\<lparr>shouldDaemonize := True\<rparr>) rest
         else
           result\<lparr>unknownParameter := arg\<rparr>)
      else
        (if fileExists fs arg
         then parseLoop cfg fs (result\<lparr>torrents := torrents result @ [absoluteFilePath fs arg]\<rparr>) rest
         else parseLoop cfg fs (result\<lparr>torrents := torrents result @ [arg]\<rparr>) rest))"

text \<open>\<^verbatim>\<open>parseCommandLine\<close> (lines 288-339): the loop starts at index 1 of
  \<^verbatim>\<open>qApp->arguments()\<close>, after the program name.\<close>

definition parseCommandLine :: "build \<Rightarrow> preferences \<Rightarrow> filesystem \<Rightarrow> string list
                                \<Rightarrow> QBtCommandLineParameters" where
  "parseCommandLine cfg pr fs appArguments =
     parseLoop cfg fs (QBtCommandLineParameters_init cfg pr) (drop 1 appArguments)"

section \<open>The process: preferences, signal table, trace\<close>

text \<open>What \<^verbatim>\<open>signal(2)\<close> can install for a signal: the default action or one of the two
  handlers of \<^verbatim>\<open>main.cpp\<close>.\<close>

datatype handler = SIG_DFL | SigNormalHandler | SigAbnormalHandler

text \<open>The four uses of \<^verbatim>\<open>displayBadArgMessage\<close> in \<^verbatim>\<open>main\<close>, by their message.\<close>

datatype badarg =
    UnknownParameter string
  | MustBeSingle string
  | BadPort
  | AlreadyRunningDaemon

fun badArgText :: "badarg \<Rightarrow> string" where
  "badArgText (UnknownParameter a) = a @ '' is an unknown command line parameter.''"
| "badArgText (MustBeSingle a) = a @ '' must be the single command line parameter.''"
| "badArgText BadPort = ''--webui-port must specify the correct port (1 to 65535).''"
| "badArgText AlreadyRunningDaemon =
     ''You cannot use -d (or --daemon): qBittorrent is already running for this user.''"

text \<open>
  Every call that leaves \<^verbatim>\<open>main.cpp\<close> (into Qt, libc, the preferences store, the
  application object, the upgrade code) is an event of the trace, in program order.
  Application objects are numbered in the order of their construction, so that the
  \<^verbatim>\<open>isRunning\<close> query of the first object and of the one built after \<^verbatim>\<open>daemon()\<close>
  are told apart. \<^verbatim>\<open>Upgrade a r\<close> is the call of \<^verbatim>\<open>upgrade\<close> with argument \<open>a\<close>
  (\<open>None\<close> when the GUI build passes none) and result \<open>r\<close>.
\<close>

datatype event =
    MacMigratePlists
  | MigrateRSS
  | NewApplication nat
  | DeleteApplication nat
  | DisplayBadArgMessage badarg
  | DisplayVersion
  | DisplayUsage string
  | SetWebUiPort int
  | Qputenv string
  | Cerr string
  | LegalNoticeShown
  | SetAcceptedLegal bool
  | IsRunning nat bool
  | QDebug string
  | Msleep nat
  | SendParams nat "string list"
  | Upgrade "bool option" bool
  | Daemon int
  | QCritical string
  | ShowSplashScreen
  | Signal nat handler
  | Exec nat "string list"
  | WriteStderr string
  | PrintStacktrace
  | StraceDlgExec
  | Raise nat
  | QAppExit
  | DefaultAction nat

record proc =
  prefs :: preferences
  sigtable :: "handler list"
  apps :: nat
  trace :: "event list"

definition emit :: "event \<Rightarrow> proc \<Rightarrow> proc" where
  "emit e p = p\<lparr>trace := trace p @ [e]\<rparr>"

text \<open>What the environment answers during one run of \<^verbatim>\<open>main\<close>: the raw
  \<^verbatim>\<open>argv\<close>, \<^verbatim>\<open>qApp->arguments()\<close> (the \<^verbatim>\<open>QApplication\<close> constructor may remove
  arguments), the file system, and the result of each external call.
  \<^verbatim>\<open>isRunning w n\<close> is the answer of the \<open>n\<close>-th application object.\<close>

record world =
  argv :: "string list"
  appArguments :: "string list"
  fs :: filesystem
  qputenvOk :: bool
  stdinIsatty :: bool
  stdoutIsatty :: bool
  getcharResult :: int
  clickedAgree :: bool
  isRunning :: "nat \<Rightarrow> bool"
  upgradeResult :: bool
  daemonResult :: int
  execResult :: int

definition EXIT_SUCCESS :: int where
  "EXIT_SUCCESS = 0"

definition EXIT_FAILURE :: int where
  "EXIT_FAILURE = 1"

section \<open>Signal handlers\<close>

definition SIGINT :: nat where
  "SIGINT = 2"

definition SIGABRT :: nat where
  "SIGABRT = 6"

definition SIGSEGV :: nat where
  "SIGSEGV = 11"

definition SIGTERM :: nat where
  "SIGTERM = 15"

definition sysSigName :: "string list" where
  "sysSigName =
    ['''', ''SIGHUP'', ''SIGINT'', ''SIGQUIT'', ''SIGILL'', ''SIGTRAP'', ''SIGABRT'', ''SIGBUS'',
     ''SIGFPE'', ''SIGKILL'', ''SIGUSR1'', ''SIGSEGV'', ''SIGUSR2'', ''SIGPIPE'', ''SIGALRM'',
     ''SIGTERM'', ''SIGSTKFLT'', ''SIGCHLD'', ''SIGCONT'', ''SIGSTOP'', ''SIGTSTP'', ''SIGTTIN'',
     ''SIGTTOU'', ''SIGURG'', ''SIGXCPU'', ''SIGXFSZ'', ''SIGVTALRM'', ''SIGPROF'', ''SIGWINCH'',
     ''SIGIO'', ''SIGPWR'', ''SIGUNUSED'']"

text \<open>\<^verbatim>\<open>sysSigName[signum]\<close>. Past the end of the array the C++ read is undefined; the
  model gives the empty name there.\<close>

definition sigName :: "nat \<Rightarrow> string" where
  "sigName signum = (if signum < length sysSigName then sysSigName ! signum else [])"

definition LF :: string where
  "LF = [CHR 0x0A]"

definition normal_str1 :: string where
  "normal_str1 = ''Catching signal: ''"

definition normal_str2 :: string where
  "normal_str2 = LF @ ''Exiting cleanly'' @ LF"

definition abnormal_str1 :: string where
  "abnormal_str1 = LF @ LF @ replicate 61 (CHR ''*'')
     @ LF @ ''Catching signal: ''"

definition abnormal_str2 :: "build \<Rightarrow> string" where
  "abnormal_str2 cfg =
     LF @ ''Please file a bug report at http://bug.qbittorrent.org and provide the following information:''
     @ LF @ LF @ ''qBittorrent version: '' @ QBT_VERSION cfg @ LF"

text \<open>\<^verbatim>\<open>signal(signum, h)\<close>: the disposition of \<open>signum\<close> becomes \<open>h\<close>; a number
  outside the table is refused and changes nothing.\<close>

definition signal :: "nat \<Rightarrow> handler \<Rightarrow> proc \<Rightarrow> proc" where
  "signal signum h p =
     (if signum < length (sigtable p)
      then emit (Signal signum h) (p\<lparr>sigtable := (sigtable p)[signum := h]\<rparr>)
      else emit (Signal signum h) p)"

definition disposition :: "proc \<Rightarrow> nat \<Rightarrow> handler" where
  "disposition p signum = (if signum < length (sigtable p) then sigtable p ! signum else SIG_DFL)"

text \<open>\<^verbatim>\<open>sigNormalHandler\<close> (lines 342-354).\<close>

definition sigNormalHandler :: "build \<Rightarrow> nat \<Rightarrow> proc \<Rightarrow> proc" where
  "sigNormalHandler cfg signum p =
     (let p1 = (if \<not> Q_OS_WIN cfg \<and> \<not> Q_OS_HAIKU cfg
                then emit (WriteStderr normal_str2)
                       (emit (WriteStderr (sigName signum))
                          (emit (WriteStderr normal_str1) p))
                else p);
          p2 = signal signum SIG_DFL p1
      in emit QAppExit p2)"

text \<open>\<^verbatim>\<open>sigAbnormalHandler\<close> (lines 356-375) up to its last statement
  \<^verbatim>\<open>raise(signum)\<close>: the notice and the stack trace, the crash dialog of the Windows
  build, then \<^verbatim>\<open>signal(signum, SIG_DFL)\<close>.\<close>

definition sigAbnormalReport :: "build \<Rightarrow> nat \<Rightarrow> proc \<Rightarrow> proc" where
  "sigAbnormalReport cfg signum p =
     (let p1 = (if \<not> Q_OS_WIN cfg \<and> \<not> Q_OS_HAIKU cfg
                then emit PrintStacktrace
                       (emit (WriteStderr (abnormal_str2 cfg))
                          (emit (WriteStderr (sigName signum))
                             (emit (WriteStderr abnormal_str1) p)))
                else p);
          p2 = (if STACKTRACE_WIN cfg then emit StraceDlgExec p1 else p1)
      in signal signum SIG_DFL p2)"

text \<open>The number of signals of the table that have a handler installed.\<close>

definition handled :: "handler list \<Rightarrow> nat" where
  "handled t = length (filter (\<lambda>h. h \<noteq> SIG_DFL) t)"

text \<open>
  Delivery of a signal to the process (by the kernel, or by \<^verbatim>\<open>raise\<close> from inside a
  handler): the action installed for the signal runs. \<^verbatim>\<open>sigAbnormalHandler\<close> ends with
  \<^verbatim>\<open>raise(signum)\<close>, which is a delivery again, so the two are mutually recursive.
\<close>

function deliver :: "build \<Rightarrow> nat \<Rightarrow> proc \<Rightarrow> proc"
  and sigAbnormalHandler :: "build \<Rightarrow> nat \<Rightarrow> proc \<Rightarrow> proc" where
  "deliver cfg signum p =
     (case disposition p signum of
        SIG_DFL \<Rightarrow> emit (DefaultAction signum) p
      | SigNormalHandler \<Rightarrow> sigNormalHandler cfg signum p
      | SigAbnormalHandler \<Rightarrow> sigAbnormalHandler cfg signum p)"
| "sigAbnormalHandler cfg signum p =
     deliver cfg signum (emit (Raise signum) (sigAbnormalReport cfg signum p))"
  by pat_completeness auto

termination deliver
proof (relation "measure (\<lambda>x. case x of
          Inl (cfg, n, p) \<Rightarrow> 2 * handled (sigtable p) + 1
        | Inr (cfg, n, p) \<Rightarrow> 2 * handled ((sigtable p)[n := SIG_DFL]) + 2)")
  show "wf (measure (\<lambda>x. case x of
          Inl (cfg, n, p) \<Rightarrow> 2 * handled (sigtable p) + 1
        | Inr (cfg, n, p) \<Rightarrow> 2 * handled ((sigtable p)[n := SIG_DFL]) + 2))"
    by simp
next
  fix cfg :: build and signum :: nat and p :: proc
  assume d: "disposition p signum = SigAbnormalHandler"
  have upd: "n < length t \<Longrightarrow> t ! n \<noteq> SIG_DFL
               \<Longrightarrow> Suc (handled (t[n := SIG_DFL])) = handled t" for n t
  proof (induction t arbitrary: n)
    case Nil
    then show ?case by simp
  next
    case (Cons h t)
    show ?case
    proof (cases n)
      case 0
      with Cons.prems show ?thesis by (simp add: handled_def)
    next
      case (Suc m)
      with Cons.prems have "Suc (handled (t[m := SIG_DFL])) = handled t"
        by (intro Cons.IH) simp_all
      with Suc show ?thesis by (simp add: handled_def)
    qed
  qed
  from d have "signum < length (sigtable p)" and "sigtable p ! signum \<noteq> SIG_DFL"
    by (auto simp: disposition_def split: if_splits)
  then have "Suc (handled ((sigtable p)[signum := SIG_DFL])) = handled (sigtable p)"
    by (rule upd)
  then show "(Inr (cfg, signum, p), Inl (cfg, signum, p)) \<in> measure (\<lambda>x. case x of
          Inl (cfg, n, p) \<Rightarrow> 2 * handled (sigtable p) + 1
        | Inr (cfg, n, p) \<Rightarrow> 2 * handled ((sigtable p)[n := SIG_DFL]) + 2)"
    by simp
next
  fix cfg :: build and signum :: nat and p :: proc
  have "sigtable (sigAbnormalReport cfg signum p) = (sigtable p)[signum := SIG_DFL]"
    by (simp add: sigAbnormalReport_def Let_def signal_def emit_def list_update_beyond)
  then show "(Inl (cfg, signum, emit (Raise signum) (sigAbnormalReport cfg signum p)),
         Inr (cfg, signum, p))
        \<in> measure (\<lambda>x. case x of
          Inl (cfg, n, p) \<Rightarrow> 2 * handled (sigtable p) + 1
        | Inr (cfg, n, p) \<Rightarrow> 2 * handled ((sigtable p)[n := SIG_DFL]) + 2)"
    by (simp add: emit_def)
qed

section \<open>The steps of \<^verbatim>\<open>main\<close>\<close>

definition setWebUiPort :: "int \<Rightarrow> proc \<Rightarrow> proc" where
  "setWebUiPort n p = emit (SetWebUiPort n) (p\<lparr>prefs := (prefs p)\<lparr>prefWebUiPort := n\<rparr>\<rparr>)"

definition setAcceptedLegal :: "bool \<Rightarrow> proc \<Rightarrow> proc" where
  "setAcceptedLegal b p = emit (SetAcceptedLegal b) (p\<lparr>prefs := (prefs p)\<lparr>prefAcceptedLegal := b\<rparr>\<rparr>)"

text \<open>\<^verbatim>\<open>new Application(appId, argc, argv)\<close>: the next application object.\<close>

definition newApplication :: "proc \<Rightarrow> proc" where
  "newApplication p = emit (NewApplication (Suc (apps p))) (p\<lparr>apps := Suc (apps p)\<rparr>)"

text \<open>
  \<^verbatim>\<open>userAgreesWithLegalNotice\<close> (lines 462-495). In the \<^verbatim>\<open>DISABLE_GUI\<close> build the answer
  is \<^verbatim>\<open>char ret = getchar()\<close> compared with \<^verbatim>\<open>'y'\<close> (121) and \<^verbatim>\<open>'Y'\<close> (89); in the GUI
  build it is whether the clicked button is the agree button.
\<close>

definition userAgreesWithLegalNotice :: "build \<Rightarrow> world \<Rightarrow> proc \<Rightarrow> bool \<times> proc" where
  "userAgreesWithLegalNotice cfg w p =
     (if prefAcceptedLegal (prefs p) then (True, p)
      else
        (let p1 = emit LegalNoticeShown p
         in if DISABLE_GUI cfg then
              (let ret = getcharResult w mod 256
               in if ret = 121 \<or> ret = 89 then (True, setAcceptedLegal True p1)
                  else (False, p1))
            else
              (if clickedAgree w then (True, setAcceptedLegal True p1)
               else (False, p1))))"

text \<open>
  \<^verbatim>\<open>main\<close> (lines 129-286) is a sequence of blocks, each of which either returns an
  exit status or falls through to the next. A block is a function from the process to
  an optional exit status and the process after it; \<open>runSteps\<close> runs blocks in order
  and stops at the first that returns.
\<close>

type_synonym step = "proc \<Rightarrow> int option \<times> proc"

fun runSteps :: "step list \<Rightarrow> step" where
  "runSteps [] p = (None, p)"
| "runSteps (s # ss) p =
     (case s p of
        (Some rc, p') \<Rightarrow> (Some rc, p')
      | (None, p') \<Rightarrow> runSteps ss p')"

text \<open>Lines 134-146: the platform migrations and the first application object.\<close>

definition startup :: "build \<Rightarrow> proc \<Rightarrow> proc" where
  "startup cfg p =
     (let p1 = (if Q_OS_MAC cfg then emit MacMigratePlists p else p);
          p2 = (if \<not> DISABLE_GUI cfg then emit MigrateRSS p1 else p1)
      in newApplication p2)"

text \<open>Lines 150-154.\<close>

definition checkUnknownParameter :: "QBtCommandLineParameters \<Rightarrow> step" where
  "checkUnknownParameter params p =
     (if unknownParameter params \<noteq> []
      then (Some EXIT_FAILURE,
            emit (DisplayBadArgMessage (UnknownParameter (unknownParameter params))) p)
      else (None, p))"

text \<open>Lines 156-168.\<close>

definition checkShowVersion :: "build \<Rightarrow> bool \<Rightarrow> QBtCommandLineParameters \<Rightarrow> step" where
  "checkShowVersion cfg isOneArg params p =
     (if \<not> Q_OS_WIN cfg \<and> showVersion params then
        (if isOneArg then (Some EXIT_SUCCESS, emit DisplayVersion p)
         else (Some EXIT_FAILURE,
               emit (DisplayBadArgMessage (MustBeSingle ''-v (or --version)'')) p))
      else (None, p))"

text \<open>Lines 170-180. \<^verbatim>\<open>argv[0]\<close> is read only where \<^verbatim>\<open>argc == 2\<close>.\<close>

definition checkShowHelp :: "world \<Rightarrow> bool \<Rightarrow> QBtCommandLineParameters \<Rightarrow> step" where
  "checkShowHelp w isOneArg params p =
     (if showHelp params then
        (if isOneArg then (Some EXIT_SUCCESS, emit (DisplayUsage (argv w ! 0)) p)
         else (Some EXIT_FAILURE,
               emit (DisplayBadArgMessage (MustBeSingle ''-h (or --help)'')) p))
      else (None, p))"

text \<open>Lines 182-189.\<close>

definition applyWebUiPort :: "QBtCommandLineParameters \<Rightarrow> step" where
  "applyWebUiPort params p =
     (if webUiPort params > 0 \<and> webUiPort params \<le> 65535
      then (None, setWebUiPort (webUiPort params) p)
      else (Some EXIT_FAILURE, emit (DisplayBadArgMessage BadPort) p))"

text \<open>Lines 191-193.\<close>

definition setEnvironment :: "world \<Rightarrow> step" where
  "setEnvironment w p =
     (let p1 = emit (Qputenv ''QBITTORRENT'') p
      in if \<not> qputenvOk w
         then (None, emit (Cerr (''Couldn'' @ [CHR 0x27] @ ''t set environment variable...'' @ LF)) p1)
         else (None, p1))"

text \<open>Lines 195-204: the legal notice. The \<^verbatim>\<open>&&\<close> chain of the \<^verbatim>\<open>DISABLE_GUI\<close> build
  calls \<^verbatim>\<open>userAgreesWithLegalNotice\<close> only when not daemonizing and both standard
  input and output are terminals.\<close>

definition legalNoticeGate :: "build \<Rightarrow> world \<Rightarrow> QBtCommandLineParameters \<Rightarrow> step" where
  "legalNoticeGate cfg w params p =
     (if \<not> DISABLE_GUI cfg then
        (case userAgreesWithLegalNotice cfg w p of
           (agrees, p') \<Rightarrow> if \<not> agrees then (Some EXIT_SUCCESS, p') else (None, p'))
      else if \<not> shouldDaemonize params \<and> stdinIsatty w \<and> stdoutIsatty w then
        (case userAgreesWithLegalNotice cfg w p of
           (agrees, p') \<Rightarrow> if \<not> agrees then (Some EXIT_SUCCESS, p') else (None, p'))
      else (None, p))"

text \<open>Lines 206-222.\<close>

definition checkAlreadyRunning :: "build \<Rightarrow> world \<Rightarrow> QBtCommandLineParameters \<Rightarrow> step" where
  "checkAlreadyRunning cfg w params p =
     (let r = isRunning w (apps p);
          p1 = emit (IsRunning (apps p) r) p
      in if r then
           (if DISABLE_GUI cfg \<and> shouldDaemonize params
            then (Some EXIT_FAILURE, emit (DisplayBadArgMessage AlreadyRunningDaemon) p1)
            else
              (let p2 = emit (QDebug ''qBittorrent is already running for this user.'') p1;
                   p3 = emit (Msleep 300) p2;
                   p4 = emit (SendParams (apps p) (torrents params)) p3
               in (Some EXIT_SUCCESS, p4)))
         else (None, p1))"

text \<open>Lines 224-248.\<close>

definition platformEnvironment :: "build \<Rightarrow> step" where
  "platformEnvironment cfg p =
     (let p1 = (if Q_OS_WIN cfg then emit (Qputenv ''QT_BEARER_POLL_TIMEOUT'') p else p);
          p2 = (if Q_OS_MAC cfg then emit (Qputenv ''PATH'') p1 else p1)
      in (None, p2))"

text \<open>Lines 250-256.\<close>

definition runUpgrade :: "build \<Rightarrow> world \<Rightarrow> QBtCommandLineParameters \<Rightarrow> step" where
  "runUpgrade cfg w params p =
     (let ask = (if \<not> DISABLE_GUI cfg then None
                 else Some (\<not> shouldDaemonize params \<and> stdinIsatty w \<and> stdoutIsatty w));
          p1 = emit (Upgrade ask (upgradeResult w)) p
      in if \<not> upgradeResult w then (Some EXIT_FAILURE, p1) else (None, p1))"

text \<open>Lines 258-276.\<close>

definition daemonizeOrSplash :: "build \<Rightarrow> world \<Rightarrow> QBtCommandLineParameters \<Rightarrow> step" where
  "daemonizeOrSplash cfg w params p =
     (if DISABLE_GUI cfg then
        (if shouldDaemonize params then
           (let p1 = emit (DeleteApplication (apps p)) p;
                p2 = emit (Daemon (daemonResult w)) p1
            in if daemonResult w = 0 then
                 (let p3 = newApplication p2;
                      r = isRunning w (apps p3);
                      p4 = emit (IsRunning (apps p3) r) p3
                  in if r then (Some EXIT_FAILURE, p4) else (None, p4))
               else
                 (Some EXIT_FAILURE,
                  emit (QCritical ''Something went wrong while daemonizing, exiting...'') p2))
         else (None, p))
      else
        (if \<not> noSplash params then (None, emit ShowSplashScreen p) else (None, p)))"

text \<open>Lines 278-283.\<close>

definition installSignalHandlers :: "build \<Rightarrow> step" where
  "installSignalHandlers cfg p =
     (if Q_OS_UNIX cfg \<or> STACKTRACE_WIN cfg then
        (let p1 = signal SIGINT SigNormalHandler p;
             p2 = signal SIGTERM SigNormalHandler p1;
             p3 = signal SIGABRT SigAbnormalHandler p2;
             p4 = signal SIGSEGV SigAbnormalHandler p3
         in (None, p4))
      else (None, p))"

text \<open>The number of signals of the platform whose signal names the source lists
  (Linux); a process starts with every signal at its default action.\<close>

definition NSIG :: nat where
  "NSIG = 65"

definition initialProcess :: "preferences \<Rightarrow> proc" where
  "initialProcess pr = \<lparr> prefs = pr, sigtable = replicate NSIG SIG_DFL, apps = 0, trace = [] \<rparr>"

text \<open>
  \<^verbatim>\<open>main\<close>: the exit status and the process at exit. The last statement,
  \<^verbatim>\<open>return app->exec(params.torrents)\<close>, runs when no block has returned.
\<close>

definition main :: "build \<Rightarrow> world \<Rightarrow> preferences \<Rightarrow> int \<times> proc" where
  "main cfg w pr =
     (let isOneArg = (length (argv w) = 2);
          p1 = startup cfg (initialProcess pr);
          params = parseCommandLine cfg (prefs p1) (fs w) (appArguments w)
      in case runSteps
                [checkUnknownParameter params,
                 checkShowVersion cfg isOneArg params,
                 checkShowHelp w isOneArg params,
                 applyWebUiPort params,
                 setEnvironment w,
                 legalNoticeGate cfg w params,
                 checkAlreadyRunning cfg w params,
                 platformEnvironment cfg,
                 runUpgrade cfg w params,
                 daemonizeOrSplash cfg w params,
                 installSignalHandlers cfg] p1 of
           (Some rc, p) \<Rightarrow> (rc, p)
         | (None, p) \<Rightarrow> (execResult w, emit (Exec (apps p) (torrents params)) p))"

section \<open>The trace of \<^verbatim>\<open>main\<close>, block by block\<close>

text \<open>
  The blocks of \<^verbatim>\<open>main\<close> are numbered in program order: 0 the start-up lines, 1 the
  unknown-parameter check, 2 the version flag, 3 the help flag, 4 the port, 5 the
  environment variable, 6 the legal notice, 7 the already-running check, 8 the
  platform environment, 9 the upgrade, 10 daemonizing (or the splash screen), 11 the
  new application object after \<^verbatim>\<open>daemon()\<close> and its \<^verbatim>\<open>isRunning\<close> query, 12 the
  signal handlers, 13 \<^verbatim>\<open>app->exec\<close>. Blocks 10 and 11 are the two halves of lines
  258-276. The definitions of this section describe, from
  the inputs of a run alone, which events each block emits and at which block the run
  returns; \<open>main_trace\<close> and \<open>main_status\<close> below prove that they describe \<open>main\<close>.
\<close>

text \<open>Whether \<^verbatim>\<open>main\<close> calls \<^verbatim>\<open>userAgreesWithLegalNotice\<close> at all (lines 195-204).\<close>

definition gateAsks :: "build \<Rightarrow> world \<Rightarrow> QBtCommandLineParameters \<Rightarrow> bool" where
  "gateAsks cfg w params =
     (\<not> DISABLE_GUI cfg \<or> (\<not> shouldDaemonize params \<and> stdinIsatty w \<and> stdoutIsatty w))"

text \<open>Whether the user's answer to the legal notice is the affirmative one.\<close>

definition affirmative :: "build \<Rightarrow> world \<Rightarrow> bool" where
  "affirmative cfg w =
     (if DISABLE_GUI cfg
      then getcharResult w mod 256 = 121 \<or> getcharResult w mod 256 = 89
      else clickedAgree w)"

definition portValid :: "int \<Rightarrow> bool" where
  "portValid n = (n > 0 \<and> n \<le> 65535)"

definition daemonMode :: "build \<Rightarrow> QBtCommandLineParameters \<Rightarrow> bool" where
  "daemonMode cfg params = (DISABLE_GUI cfg \<and> shouldDaemonize params)"

definition startupEvents :: "build \<Rightarrow> event list" where
  "startupEvents cfg =
     (if Q_OS_MAC cfg then [MacMigratePlists] else []) @
     (if \<not> DISABLE_GUI cfg then [MigrateRSS] else []) @ [NewApplication 1]"

definition unknownEvents :: "QBtCommandLineParameters \<Rightarrow> event list" where
  "unknownEvents params =
     (if unknownParameter params \<noteq> []
      then [DisplayBadArgMessage (UnknownParameter (unknownParameter params))] else [])"

definition versionEvents :: "build \<Rightarrow> world \<Rightarrow> QBtCommandLineParameters \<Rightarrow> event list" where
  "versionEvents cfg w params =
     (if \<not> Q_OS_WIN cfg \<and> showVersion params
      then [if length (argv w) = 2 then DisplayVersion
            else DisplayBadArgMessage (MustBeSingle ''-v (or --version)'')]
      else [])"

definition helpEvents :: "world \<Rightarrow> QBtCommandLineParameters \<Rightarrow> event list" where
  "helpEvents w params =
     (if showHelp params
      then [if length (argv w) = 2 then DisplayUsage (argv w ! 0)
            else DisplayBadArgMessage (MustBeSingle ''-h (or --help)'')]
      else [])"

definition portEvents :: "QBtCommandLineParameters \<Rightarrow> event list" where
  "portEvents params =
     [if portValid (webUiPort params) then SetWebUiPort (webUiPort params)
      else DisplayBadArgMessage BadPort]"

definition envEvents :: "world \<Rightarrow> event list" where
  "envEvents w =
     Qputenv ''QBITTORRENT'' #
     (if \<not> qputenvOk w
      then [Cerr (''Couldn'' @ [CHR 0x27] @ ''t set environment variable...'' @ LF)] else [])"

definition legalEvents :: "build \<Rightarrow> world \<Rightarrow> bool \<Rightarrow> QBtCommandLineParameters \<Rightarrow> event list" where
  "legalEvents cfg w accepted params =
     (if gateAsks cfg w params \<and> \<not> accepted
      then LegalNoticeShown # (if affirmative cfg w then [SetAcceptedLegal True] else [])
      else [])"

definition runningEvents :: "build \<Rightarrow> world \<Rightarrow> QBtCommandLineParameters \<Rightarrow> event list" where
  "runningEvents cfg w params =
     IsRunning 1 (isRunning w 1) #
     (if isRunning w 1 then
        (if daemonMode cfg params then [DisplayBadArgMessage AlreadyRunningDaemon]
         else [QDebug ''qBittorrent is already running for this user.'', Msleep 300,
               SendParams 1 (torrents params)])
      else [])"

definition platformEvents :: "build \<Rightarrow> event list" where
  "platformEvents cfg =
     (if Q_OS_WIN cfg then [Qputenv ''QT_BEARER_POLL_TIMEOUT''] else []) @
     (if Q_OS_MAC cfg then [Qputenv ''PATH''] else [])"

definition upgradeEvents :: "build \<Rightarrow> world \<Rightarrow> QBtCommandLineParameters \<Rightarrow> event list" where
  "upgradeEvents cfg w params =
     [Upgrade (if \<not> DISABLE_GUI cfg then None
               else Some (\<not> shouldDaemonize params \<and> stdinIsatty w \<and> stdoutIsatty w))
              (upgradeResult w)]"

definition daemonEvents :: "build \<Rightarrow> world \<Rightarrow> QBtCommandLineParameters \<Rightarrow> event list" where
  "daemonEvents cfg w params =
     (if DISABLE_GUI cfg then
        (if shouldDaemonize params then
           DeleteApplication 1 # Daemon (daemonResult w) #
           (if daemonResult w = 0 then []
            else [QCritical ''Something went wrong while daemonizing, exiting...''])
         else [])
      else (if \<not> noSplash params then [ShowSplashScreen] else []))"

definition reacquireEvents :: "build \<Rightarrow> world \<Rightarrow> QBtCommandLineParameters \<Rightarrow> event list" where
  "reacquireEvents cfg w params =
     (if daemonMode cfg params then [NewApplication 2, IsRunning 2 (isRunning w 2)] else [])"

definition signalEvents :: "build \<Rightarrow> event list" where
  "signalEvents cfg =
     (if Q_OS_UNIX cfg \<or> STACKTRACE_WIN cfg
      then [Signal SIGINT SigNormalHandler, Signal SIGTERM SigNormalHandler,
            Signal SIGABRT SigAbnormalHandler, Signal SIGSEGV SigAbnormalHandler]
      else [])"

definition execEvents :: "build \<Rightarrow> QBtCommandLineParameters \<Rightarrow> event list" where
  "execEvents cfg params = [Exec (if daemonMode cfg params then 2 else 1) (torrents params)]"

text \<open>The events of blocks 0 to 13 of one run, each as if the run reached it.\<close>

definition segments :: "build \<Rightarrow> world \<Rightarrow> preferences \<Rightarrow> event list list" where
  "segments cfg w pr =
     (let params = parseCommandLine cfg pr (fs w) (appArguments w)
      in [startupEvents cfg, unknownEvents params, versionEvents cfg w params,
          helpEvents w params, portEvents params, envEvents w,
          legalEvents cfg w (prefAcceptedLegal pr) params, runningEvents cfg w params, platformEvents cfg,
          upgradeEvents cfg w params, daemonEvents cfg w params,
          reacquireEvents cfg w params, signalEvents cfg, execEvents cfg params])"

text \<open>The block at which \<^verbatim>\<open>main\<close> returns.\<close>

definition exitStep :: "build \<Rightarrow> world \<Rightarrow> preferences \<Rightarrow> nat" where
  "exitStep cfg w pr =
     (let params = parseCommandLine cfg pr (fs w) (appArguments w)
      in if unknownParameter params \<noteq> [] then 1
         else if \<not> Q_OS_WIN cfg \<and> showVersion params then 2
         else if showHelp params then 3
         else if \<not> portValid (webUiPort params) then 4
         else if gateAsks cfg w params \<and> \<not> prefAcceptedLegal pr \<and> \<not> affirmative cfg w then 6
         else if isRunning w 1 then 7
         else if \<not> upgradeResult w then 9
         else if daemonMode cfg params \<and> daemonResult w \<noteq> 0 then 10
         else if daemonMode cfg params \<and> isRunning w 2 then 11
         else 13)"

text \<open>The exit status, by the block that returns.\<close>

definition exitStatus :: "build \<Rightarrow> world \<Rightarrow> preferences \<Rightarrow> int" where
  "exitStatus cfg w pr =
     (let params = parseCommandLine cfg pr (fs w) (appArguments w);
          k = exitStep cfg w pr
      in if k = 1 then EXIT_FAILURE
         else if k = 2 \<or> k = 3 then (if length (argv w) = 2 then EXIT_SUCCESS else EXIT_FAILURE)
         else if k = 4 then EXIT_FAILURE
         else if k = 6 then EXIT_SUCCESS
         else if k = 7 then (if daemonMode cfg params then EXIT_FAILURE else EXIT_SUCCESS)
         else if k = 9 \<or> k = 10 \<or> k = 11 then EXIT_FAILURE
         else execResult w)"

text \<open>The block an event belongs to. The two uses of \<^verbatim>\<open>MustBeSingle\<close> and of
  \<^verbatim>\<open>qputenv\<close> differ by their text; the first application object belongs to the
  start-up block, a later one to daemonizing. The events of the signal handlers come
  after all blocks.\<close>

fun stepOf :: "event \<Rightarrow> nat" where
  "stepOf MacMigratePlists = 0"
| "stepOf MigrateRSS = 0"
| "stepOf (NewApplication n) = (if n = 1 then 0 else 11)"
| "stepOf (DeleteApplication n) = 10"
| "stepOf (DisplayBadArgMessage (UnknownParameter a)) = 1"
| "stepOf (DisplayBadArgMessage (MustBeSingle a)) = (if a = ''-v (or --version)'' then 2 else 3)"
| "stepOf (DisplayBadArgMessage BadPort) = 4"
| "stepOf (DisplayBadArgMessage AlreadyRunningDaemon) = 7"
| "stepOf DisplayVersion = 2"
| "stepOf (DisplayUsage a) = 3"
| "stepOf (SetWebUiPort n) = 4"
| "stepOf (Qputenv v) = (if v = ''QBITTORRENT'' then 5 else 8)"
| "stepOf (Cerr a) = 5"
| "stepOf LegalNoticeShown = 6"
| "stepOf (SetAcceptedLegal b) = 6"
| "stepOf (IsRunning n r) = (if n = 1 then 7 else 11)"
| "stepOf (QDebug a) = 7"
| "stepOf (Msleep n) = 7"
| "stepOf (SendParams n ts) = 7"
| "stepOf (Upgrade a r) = 9"
| "stepOf (Daemon d) = 10"
| "stepOf (QCritical a) = 10"
| "stepOf ShowSplashScreen = 10"
| "stepOf (Signal n h) = 12"
| "stepOf (Exec n ts) = 13"
| "stepOf (WriteStderr a) = 14"
| "stepOf PrintStacktrace = 14"
| "stepOf StraceDlgExec = 14"
| "stepOf (Raise n) = 14"
| "stepOf QAppExit = 14"
| "stepOf (DefaultAction n) = 14"

text \<open>The signal table after lines 278-283.\<close>

definition installedTable :: "build \<Rightarrow> handler list \<Rightarrow> handler list" where
  "installedTable cfg t =
     (if Q_OS_UNIX cfg \<or> STACKTRACE_WIN cfg
      then t[SIGINT := SigNormalHandler, SIGTERM := SigNormalHandler,
             SIGABRT := SigAbnormalHandler, SIGSEGV := SigAbnormalHandler]
      else t)"

section \<open>Vocabulary of the properties\<close>

text \<open>The option tokens the parser knows (the conditions of lines 299-319, in a build).\<close>

definition knownFlag :: "build \<Rightarrow> string \<Rightarrow> bool" where
  "knownFlag cfg arg =
     (arg = ''-h'' \<or> arg = ''--help'' \<or>
      (\<not> Q_OS_WIN cfg \<and> (arg = ''-v'' \<or> arg = ''--version'')) \<or>
      startsWith arg ''--webui-port='' \<or>
      (\<not> DISABLE_GUI cfg \<and> arg = ''--no-splash'') \<or>
      (DISABLE_GUI cfg \<and> (arg = ''-d'' \<or> arg = ''--daemon'')))"

text \<open>A token that is treated as an option and is none of the known ones.\<close>

definition unknownFlag :: "build \<Rightarrow> string \<Rightarrow> bool" where
  "unknownFlag cfg arg = (isFlag arg \<and> \<not> knownFlag cfg arg)"

text \<open>A token that sets the help or the version flag.\<close>

definition helpOrVersion :: "build \<Rightarrow> string \<Rightarrow> bool" where
  "helpOrVersion cfg arg =
     (arg = ''-h'' \<or> arg = ''--help'' \<or>
      (\<not> Q_OS_WIN cfg \<and> (arg = ''-v'' \<or> arg = ''--version'')))"

text \<open>The decimal numeral of a natural number, and of an integer with its sign, as a
  user types \<^verbatim>\<open><N>\<close>.\<close>

fun decimal :: "nat \<Rightarrow> string" where
  "decimal n =
     (if n < 10 then [char_of (48 + n)]
      else decimal (n div 10) @ [char_of (48 + n mod 10)])"

definition decimalInt :: "int \<Rightarrow> string" where
  "decimalInt n = (if n < 0 then CHR ''-'' # decimal (nat (- n)) else decimal (nat n))"

text \<open>A value that reads as a number: between optional white space, an optional sign
  and one or more digits.\<close>

definition isNumber :: "string \<Rightarrow> bool" where
  "isNumber v =
     (let t = trimmed v;
          ds = (if t \<noteq> [] \<and> (hd t = CHR ''-'' \<or> hd t = CHR ''+'') then tl t else t)
      in ds \<noteq> [] \<and> list_all isDigit ds)"

text \<open>A port value that is missing or is not a number.\<close>

definition malformed :: "string \<Rightarrow> bool" where
  "malformed v = (\<not> isNumber v)"

text \<open>The steps of the start-up sequence, and the step each block of \<^verbatim>\<open>main\<close> belongs
  to: blocks 0 to 5 read and check the arguments, block 8 prepares the environment
  of the upgrade.\<close>

datatype lifecycle =
    ParseArgs
  | Consent
  | CheckSingleton
  | RunMigrations
  | Daemonize
  | ReacquireSingleton
  | InstallSignalHandlers
  | StartEngine
  | SignalDelivery

definition lifecycleOfStep :: "nat \<Rightarrow> lifecycle" where
  "lifecycleOfStep k =
     (if k \<le> 5 then ParseArgs
      else if k = 6 then Consent
      else if k = 7 then CheckSingleton
      else if k \<le> 9 then RunMigrations
      else if k = 10 then Daemonize
      else if k = 11 then ReacquireSingleton
      else if k = 12 then InstallSignalHandlers
      else if k = 13 then StartEngine
      else SignalDelivery)"

text \<open>The position of a step in the order in which \<^verbatim>\<open>main\<close> runs them.\<close>

fun rank :: "lifecycle \<Rightarrow> nat" where
  "rank ParseArgs = 0"
| "rank Consent = 1"
| "rank CheckSingleton = 2"
| "rank RunMigrations = 3"
| "rank Daemonize = 4"
| "rank ReacquireSingleton = 5"
| "rank InstallSignalHandlers = 6"
| "rank StartEngine = 7"
| "rank SignalDelivery = 8"

text \<open>The same for the order that puts the singleton check before the legal notice.\<close>

fun rankSingletonFirst :: "lifecycle \<Rightarrow> nat" where
  "rankSingletonFirst ParseArgs = 0"
| "rankSingletonFirst CheckSingleton = 1"
| "rankSingletonFirst Consent = 2"
| "rankSingletonFirst RunMigrations = 3"
| "rankSingletonFirst Daemonize = 4"
| "rankSingletonFirst ReacquireSingleton = 5"
| "rankSingletonFirst InstallSignalHandlers = 6"
| "rankSingletonFirst StartEngine = 7"
| "rankSingletonFirst SignalDelivery = 8"

section \<open>Concrete runs\<close>

definition guiBuild :: build where
  "guiBuild = \<lparr> DISABLE_GUI = False, Q_OS_WIN = False, Q_OS_UNIX = True, Q_OS_MAC = False,
                Q_OS_HAIKU = False, STACKTRACE_WIN = False, QBT_VERSION = ''v3.3.11'' \<rparr>"

definition noGuiBuild :: build where
  "noGuiBuild = \<lparr> DISABLE_GUI = True, Q_OS_WIN = False, Q_OS_UNIX = True, Q_OS_MAC = False,
                  Q_OS_HAIKU = False, STACKTRACE_WIN = False, QBT_VERSION = ''v3.3.11'' \<rparr>"

definition noFiles :: filesystem where
  "noFiles = \<lparr> fileExists = (\<lambda>a. False), absoluteFilePath = (\<lambda>a. a) \<rparr>"

text \<open>A launch from a terminal with the given arguments after the program name; no
  other instance runs, every external call succeeds, the user answers \<^verbatim>\<open>y\<close> or clicks
  the agree button.\<close>

definition launch :: "string list \<Rightarrow> world" where
  "launch args =
     \<lparr> argv = ''qbittorrent'' # args, appArguments = ''qbittorrent'' # args, fs = noFiles,
       qputenvOk = True, stdinIsatty = True, stdoutIsatty = True, getcharResult = 121,
       clickedAgree = True, isRunning = (\<lambda>n. False), upgradeResult = True,
       daemonResult = 0, execResult = 0 \<rparr>"

definition freshPrefs :: preferences where
  "freshPrefs = \<lparr> prefWebUiPort = 8080, prefAcceptedLegal = False,
                  prefSplashScreenDisabled = False \<rparr>"

definition acceptedPrefs :: preferences where
  "acceptedPrefs = \<lparr> prefWebUiPort = 8080, prefAcceptedLegal = True,
                     prefSplashScreenDisabled = False \<rparr>"

text \<open>The arguments pass the checks of lines 150-189: no unknown parameter, neither the
  version nor the help flag, a port between 1 and 65535.\<close>

definition argsAccepted :: "build \<Rightarrow> world \<Rightarrow> preferences \<Rightarrow> bool" where
  "argsAccepted cfg w pr =
     (let params = parseCommandLine cfg pr (fs w) (appArguments w)
      in unknownParameter params = [] \<and> \<not> (\<not> Q_OS_WIN cfg \<and> showVersion params) \<and>
         \<not> showHelp params \<and> portValid (webUiPort params))"

text \<open>The legal notice is shown and the answer is not the affirmative one.\<close>

definition declined :: "build \<Rightarrow> world \<Rightarrow> preferences \<Rightarrow> bool" where
  "declined cfg w pr =
     (gateAsks cfg w (parseCommandLine cfg pr (fs w) (appArguments w)) \<and>
      \<not> prefAcceptedLegal pr \<and> \<not> affirmative cfg w)"

text \<open>One run of \<^verbatim>\<open>main\<close>: its parsed parameters, its trace, its exit status.\<close>

definition paramsOf :: "build \<Rightarrow> world \<Rightarrow> preferences \<Rightarrow> QBtCommandLineParameters" where
  "paramsOf cfg w pr = parseCommandLine cfg pr (fs w) (appArguments w)"

definition traceOf :: "build \<Rightarrow> world \<Rightarrow> preferences \<Rightarrow> event list" where
  "traceOf cfg w pr = trace (snd (main cfg w pr))"

definition statusOf :: "build \<Rightarrow> world \<Rightarrow> preferences \<Rightarrow> int" where
  "statusOf cfg w pr = fst (main cfg w pr)"

text \<open>The step of the start-up sequence an event belongs to.\<close>

definition lifecycleOf :: "event \<Rightarrow> lifecycle" where
  "lifecycleOf e = lifecycleOfStep (stepOf e)"

text \<open>The events after which \<^verbatim>\<open>main\<close> has a \<^verbatim>\<open>return\<close> as its next statement: a
  bad-argument message, the version or usage text, the hand-off to the running
  instance, an upgrade that failed, the complaint about \<^verbatim>\<open>daemon()\<close>, and a positive
  \<^verbatim>\<open>isRunning\<close> answer of the application object built after \<^verbatim>\<open>daemon()\<close>.\<close>

fun terminal :: "event \<Rightarrow> bool" where
  "terminal (DisplayBadArgMessage b) = True"
| "terminal DisplayVersion = True"
| "terminal (DisplayUsage a) = True"
| "terminal (SendParams n ts) = True"
| "terminal (Upgrade a r) = (\<not> r)"
| "terminal (QCritical a) = True"
| "terminal (IsRunning n r) = (r \<and> n \<noteq> 1)"
| "terminal e = False"

section \<open>Each block as a function of its input\<close>

lemma startup_initial:
  "startup cfg (initialProcess pr) =
     \<lparr> prefs = pr, sigtable = replicate NSIG SIG_DFL, apps = 1, trace = startupEvents cfg \<rparr>"
  by (simp add: startup_def initialProcess_def newApplication_def emit_def startupEvents_def)

lemma checkUnknownParameter_eq:
  "checkUnknownParameter params p =
     (if unknownParameter params \<noteq> [] then Some EXIT_FAILURE else None,
      p\<lparr>trace := trace p @ unknownEvents params\<rparr>)"
  by (simp add: checkUnknownParameter_def unknownEvents_def emit_def)

lemma checkShowVersion_eq:
  "b = (length (argv w) = 2) \<Longrightarrow> checkShowVersion cfg b params p =
     (if \<not> Q_OS_WIN cfg \<and> showVersion params
      then Some (if length (argv w) = 2 then EXIT_SUCCESS else EXIT_FAILURE) else None,
      p\<lparr>trace := trace p @ versionEvents cfg w params\<rparr>)"
  by (simp add: checkShowVersion_def versionEvents_def emit_def)

lemma checkShowHelp_eq:
  "b = (length (argv w) = 2) \<Longrightarrow> checkShowHelp w b params p =
     (if showHelp params
      then Some (if length (argv w) = 2 then EXIT_SUCCESS else EXIT_FAILURE) else None,
      p\<lparr>trace := trace p @ helpEvents w params\<rparr>)"
  by (simp add: checkShowHelp_def helpEvents_def emit_def)

lemma applyWebUiPort_eq:
  "applyWebUiPort params p =
     (if portValid (webUiPort params) then None else Some EXIT_FAILURE,
      p\<lparr>trace := trace p @ portEvents params,
        prefs := (if portValid (webUiPort params)
                  then (prefs p)\<lparr>prefWebUiPort := webUiPort params\<rparr> else prefs p)\<rparr>)"
  by (simp add: applyWebUiPort_def portEvents_def portValid_def setWebUiPort_def emit_def)

lemma setEnvironment_eq:
  "setEnvironment w p = (None, p\<lparr>trace := trace p @ envEvents w\<rparr>)"
  by (simp add: setEnvironment_def envEvents_def emit_def Let_def)

lemma legalNoticeGate_eq:
  "legalNoticeGate cfg w params p =
     (if gateAsks cfg w params \<and> \<not> prefAcceptedLegal (prefs p) \<and> \<not> affirmative cfg w
      then Some EXIT_SUCCESS else None,
      p\<lparr>trace := trace p @ legalEvents cfg w (prefAcceptedLegal (prefs p)) params,
        prefs := (if gateAsks cfg w params \<and> \<not> prefAcceptedLegal (prefs p) \<and> affirmative cfg w
                  then (prefs p)\<lparr>prefAcceptedLegal := True\<rparr> else prefs p)\<rparr>)"
  by (simp add: legalNoticeGate_def userAgreesWithLegalNotice_def legalEvents_def gateAsks_def
      affirmative_def setAcceptedLegal_def emit_def Let_def)

lemma checkAlreadyRunning_eq:
  "apps p = 1 \<Longrightarrow> checkAlreadyRunning cfg w params p =
     (if isRunning w 1 then Some (if daemonMode cfg params then EXIT_FAILURE else EXIT_SUCCESS)
      else None,
      p\<lparr>trace := trace p @ runningEvents cfg w params\<rparr>)"
  by (simp add: checkAlreadyRunning_def runningEvents_def daemonMode_def emit_def Let_def)

lemma platformEnvironment_eq:
  "platformEnvironment cfg p = (None, p\<lparr>trace := trace p @ platformEvents cfg\<rparr>)"
  by (simp add: platformEnvironment_def platformEvents_def emit_def Let_def)

lemma runUpgrade_eq:
  "runUpgrade cfg w params p =
     (if \<not> upgradeResult w then Some EXIT_FAILURE else None,
      p\<lparr>trace := trace p @ upgradeEvents cfg w params\<rparr>)"
  by (simp add: runUpgrade_def upgradeEvents_def emit_def Let_def)

lemma daemonizeOrSplash_eq:
  "apps p = 1 \<Longrightarrow> daemonizeOrSplash cfg w params p =
     (if daemonMode cfg params \<and> (daemonResult w \<noteq> 0 \<or> isRunning w 2)
      then Some EXIT_FAILURE else None,
      p\<lparr>trace := trace p @ daemonEvents cfg w params @
                 (if daemonMode cfg params \<and> daemonResult w = 0
                  then reacquireEvents cfg w params else []),
        apps := (if daemonMode cfg params \<and> daemonResult w = 0 then 2 else 1)\<rparr>)"
  by (simp add: daemonizeOrSplash_def daemonEvents_def daemonMode_def newApplication_def
      reacquireEvents_def emit_def Let_def numeral_2_eq_2)

lemma installSignalHandlers_eq:
  "installSignalHandlers cfg p =
     (None, p\<lparr>trace := trace p @ signalEvents cfg,
              sigtable := installedTable cfg (sigtable p)\<rparr>)"
  by (simp add: installSignalHandlers_def signalEvents_def installedTable_def signal_def
      emit_def Let_def list_update_beyond)

lemmas step_eqs = startup_initial checkUnknownParameter_eq checkShowVersion_eq checkShowHelp_eq
  applyWebUiPort_eq setEnvironment_eq legalNoticeGate_eq checkAlreadyRunning_eq
  platformEnvironment_eq runUpgrade_eq daemonizeOrSplash_eq installSignalHandlers_eq

lemma main_trace:
  "trace (snd (main cfg w pr)) = concat (take (Suc (exitStep cfg w pr)) (segments cfg w pr))"
  by (auto simp add: main_def Let_def step_eqs exitStep_def segments_def execEvents_def reacquireEvents_def emit_def
      numeral_2_eq_2)

lemma main_status: "fst (main cfg w pr) = exitStatus cfg w pr"
  by (auto simp add: main_def Let_def step_eqs exitStep_def exitStatus_def numeral_2_eq_2)


lemma main_prefs:
  "prefs (snd (main cfg w pr)) =
     (let params = parseCommandLine cfg pr (fs w) (appArguments w); k = exitStep cfg w pr
      in pr\<lparr>prefWebUiPort := (if 4 < k then webUiPort params else prefWebUiPort pr),
            prefAcceptedLegal := (prefAcceptedLegal pr \<or>
               (6 < k \<and> gateAsks cfg w params \<and> affirmative cfg w))\<rparr>)"
  by (auto simp add: main_def Let_def step_eqs exitStep_def emit_def numeral_2_eq_2)

lemma main_sigtable:
  "sigtable (snd (main cfg w pr)) =
     (if exitStep cfg w pr = 13 then installedTable cfg (replicate NSIG SIG_DFL)
      else replicate NSIG SIG_DFL)"
  by (auto simp add: main_def Let_def step_eqs exitStep_def emit_def numeral_2_eq_2)
lemma in_concat_take:
  "e \<in> set (concat (take n segs)) \<longleftrightarrow> (\<exists>i<n. i < length segs \<and> e \<in> set (segs ! i))"
proof
  assume "e \<in> set (concat (take n segs))"
  then obtain s where "s \<in> set (take n segs)" and e: "e \<in> set s" by auto
  then obtain i where "i < length (take n segs)" and "take n segs ! i = s"
    by (auto simp: in_set_conv_nth)
  with e show "\<exists>i<n. i < length segs \<and> e \<in> set (segs ! i)"
    by (intro exI [of _ i]) auto
next
  assume "\<exists>i<n. i < length segs \<and> e \<in> set (segs ! i)"
  then obtain i where i: "i < n" "i < length segs" and e: "e \<in> set (segs ! i)" by blast
  from i have "take n segs ! i = segs ! i" and "i < length (take n segs)" by simp_all
  then have "segs ! i \<in> set (take n segs)" by (metis nth_mem)
  with e show "e \<in> set (concat (take n segs))" by auto
qed

lemma sorted_map_const: "(\<And>x. x \<in> set xs \<Longrightarrow> f x = (c::nat)) \<Longrightarrow> sorted (map f xs)"
  by (induction xs) auto

lemma sorted_concat_take:
  assumes "\<And>i e. i < length segs \<Longrightarrow> e \<in> set (segs ! i) \<Longrightarrow> f e = i"
  shows "sorted (map f (concat (take n segs)))"
proof (induction n)
  case 0
  show ?case by simp
next
  case (Suc n)
  show ?case
  proof (cases "n < length segs")
    case True
    have last_seg: "sorted (map f (segs ! n))"
      using assms [OF True] by (rule sorted_map_const)
    have "f x \<le> f y" if "x \<in> set (concat (take n segs))" and "y \<in> set (segs ! n)" for x y
    proof -
      from that(1) obtain i where "i < n" and "i < length segs" and "x \<in> set (segs ! i)"
        unfolding in_concat_take by blast
      then have "f x = i" using assms by blast
      moreover have "f y = n" using assms [OF True that(2)] .
      ultimately show ?thesis using \<open>i < n\<close> by simp
    qed
    with Suc last_seg True show ?thesis
      by (simp add: take_Suc_conv_app_nth sorted_append)
  next
    case False
    with Suc show ?thesis by simp
  qed
qed

lemma length_segments: "length (segments cfg w pr) = 14"
  by (simp add: segments_def Let_def)

lemma exitStep_le: "exitStep cfg w pr \<le> 13"
  by (simp add: exitStep_def Let_def)

lemmas segment_defs = startupEvents_def unknownEvents_def versionEvents_def helpEvents_def
  portEvents_def envEvents_def legalEvents_def runningEvents_def platformEvents_def
  upgradeEvents_def daemonEvents_def reacquireEvents_def signalEvents_def execEvents_def

lemma segments_stepOf:
  assumes "i < length (segments cfg w pr)" and "e \<in> set (segments cfg w pr ! i)"
  shows "stepOf e = i"
proof -
  from assms(1) have "i < 14" by (simp add: length_segments)
  then consider (atExec) "13 = i" | (atSignals) "12 = i" | (atReacquire) "11 = i"
    | (atDaemonize) "10 = i" | (atUpgrade) "9 = i" | (atPlatform) "8 = i"
    | (atRunning) "7 = i" | (atLegal) "6 = i" | (atEnv) "5 = i" | (atPort) "4 = i"
    | (atHelp) "3 = i" | (atVersion) "2 = i" | (atUnknown) "1 = i" | (atStartup) "0 = i"
    by atomize_elim arith
  then show ?thesis
    using assms(2)
    by cases (auto simp: segments_def Let_def segment_defs split: if_splits)
qed

lemma sorted_stepOf: "sorted (map stepOf (trace (snd (main cfg w pr))))"
  unfolding main_trace by (rule sorted_concat_take) (rule segments_stepOf)

lemma in_trace_iff:
  "e \<in> set (trace (snd (main cfg w pr))) \<longleftrightarrow>
     stepOf e \<le> exitStep cfg w pr \<and> e \<in> set (segments cfg w pr ! stepOf e)"
proof
  assume "e \<in> set (trace (snd (main cfg w pr)))"
  then obtain i where i: "i < Suc (exitStep cfg w pr)" "i < length (segments cfg w pr)"
      "e \<in> set (segments cfg w pr ! i)"
    unfolding main_trace in_concat_take by blast
  then have "stepOf e = i" by (simp add: segments_stepOf)
  with i show "stepOf e \<le> exitStep cfg w pr \<and> e \<in> set (segments cfg w pr ! stepOf e)"
    by simp
next
  assume a: "stepOf e \<le> exitStep cfg w pr \<and> e \<in> set (segments cfg w pr ! stepOf e)"
  have "exitStep cfg w pr < length (segments cfg w pr)"
    using exitStep_le [of cfg w pr] by (simp add: length_segments)
  with a show "e \<in> set (trace (snd (main cfg w pr)))"
    unfolding main_trace in_concat_take by (intro exI [of _ "stepOf e"]) simp
qed


lemma reach_parse:
  "5 \<le> exitStep cfg w pr \<longleftrightarrow> argsAccepted cfg w pr"
  by (auto simp: exitStep_def argsAccepted_def Let_def)

lemma reach_singleton:
  "7 \<le> exitStep cfg w pr \<longleftrightarrow> argsAccepted cfg w pr \<and> \<not> declined cfg w pr"
  by (auto simp: exitStep_def argsAccepted_def declined_def Let_def)

lemma reach_upgrade:
  "8 \<le> exitStep cfg w pr \<longleftrightarrow>
     argsAccepted cfg w pr \<and> \<not> declined cfg w pr \<and> \<not> isRunning w 1"
  by (auto simp: exitStep_def argsAccepted_def declined_def Let_def)

lemma reach_daemonize:
  "10 \<le> exitStep cfg w pr \<longleftrightarrow>
     argsAccepted cfg w pr \<and> \<not> declined cfg w pr \<and> \<not> isRunning w 1 \<and> upgradeResult w"
  by (auto simp: exitStep_def argsAccepted_def declined_def Let_def)

lemma reach_reacquire:
  "11 \<le> exitStep cfg w pr \<longleftrightarrow>
     argsAccepted cfg w pr \<and> \<not> declined cfg w pr \<and> \<not> isRunning w 1 \<and> upgradeResult w \<and>
     \<not> (daemonMode cfg (parseCommandLine cfg pr (fs w) (appArguments w)) \<and> daemonResult w \<noteq> 0)"
  by (auto simp: exitStep_def argsAccepted_def declined_def Let_def)

lemma reach_exec:
  "12 \<le> exitStep cfg w pr \<longleftrightarrow>
     argsAccepted cfg w pr \<and> \<not> declined cfg w pr \<and> \<not> isRunning w 1 \<and> upgradeResult w \<and>
     \<not> (daemonMode cfg (parseCommandLine cfg pr (fs w) (appArguments w)) \<and>
        (daemonResult w \<noteq> 0 \<or> isRunning w 2))"
  by (auto simp: exitStep_def argsAccepted_def declined_def Let_def)

lemma exitStep_values:
  "exitStep cfg w pr \<in> {1, 2, 3, 4, 6, 7, 9, 10, 11, 13}"
  by (simp add: exitStep_def Let_def)

lemma exitStep_upgrade: "9 \<le> exitStep cfg w pr \<Longrightarrow> \<not> upgradeResult w \<Longrightarrow> exitStep cfg w pr = 9"
  by (auto simp add: exitStep_def Let_def split: if_splits)

lemma trace_last_segment:
  "trace (snd (main cfg w pr)) =
     concat (take (exitStep cfg w pr) (segments cfg w pr)) @ segments cfg w pr ! exitStep cfg w pr"
proof -
  have "exitStep cfg w pr < length (segments cfg w pr)"
    using exitStep_le [of cfg w pr] by (simp add: length_segments)
  then show ?thesis by (simp add: main_trace take_Suc_conv_app_nth)
qed


lemma trace_exit:
  "traceOf cfg w pr =
     concat (take (exitStep cfg w pr) (segments cfg w pr)) @ segments cfg w pr ! exitStep cfg w pr"
  by (simp add: traceOf_def trace_last_segment)

lemma in_traceOf_iff:
  "e \<in> set (traceOf cfg w pr) \<longleftrightarrow>
     stepOf e \<le> exitStep cfg w pr \<and> e \<in> set (segments cfg w pr ! stepOf e)"
  by (simp add: traceOf_def in_trace_iff)

lemma statusOf_eq: "statusOf cfg w pr = exitStatus cfg w pr"
  by (simp add: statusOf_def main_status)

lemma segments_nth:
  "segments cfg w pr ! 6 = legalEvents cfg w (prefAcceptedLegal pr) (paramsOf cfg w pr)"
  "segments cfg w pr ! 7 = runningEvents cfg w (paramsOf cfg w pr)"
  "segments cfg w pr ! 9 = upgradeEvents cfg w (paramsOf cfg w pr)"
  "segments cfg w pr ! 10 = daemonEvents cfg w (paramsOf cfg w pr)"
  "segments cfg w pr ! 11 = reacquireEvents cfg w (paramsOf cfg w pr)"
  "segments cfg w pr ! 12 = signalEvents cfg"
  "segments cfg w pr ! 13 = execEvents cfg (paramsOf cfg w pr)"
  by (simp_all add: segments_def Let_def paramsOf_def)

lemma exitStep_daemon_failed:
  "10 \<le> exitStep cfg w pr \<Longrightarrow> daemonMode cfg (paramsOf cfg w pr) \<Longrightarrow> daemonResult w \<noteq> 0
     \<Longrightarrow> exitStep cfg w pr = 10"
  by (auto simp add: exitStep_def Let_def paramsOf_def split: if_splits)




lemma exitStep_declined:
  "6 \<le> exitStep cfg w pr \<Longrightarrow> declined cfg w pr \<Longrightarrow> exitStep cfg w pr = 6"
  by (auto simp add: exitStep_def declined_def Let_def split: if_splits)

lemma reach_legal: "6 \<le> exitStep cfg w pr \<longleftrightarrow> argsAccepted cfg w pr"
  by (auto simp: exitStep_def argsAccepted_def Let_def)

lemma notice_shown_iff:
  "LegalNoticeShown \<in> set (traceOf cfg w pr) \<longleftrightarrow>
     argsAccepted cfg w pr \<and> gateAsks cfg w (paramsOf cfg w pr) \<and> \<not> prefAcceptedLegal pr"
  by (auto simp: in_traceOf_iff segments_nth legalEvents_def reach_legal)


section \<open>The parser\<close>

lemma parseLoop_unknown:
  assumes "\<forall>a \<in> set pre. \<not> unknownFlag cfg a" and "unknownFlag cfg t"
  shows "parseLoop cfg files r (pre @ t # post) = (parseLoop cfg files r pre)\<lparr>unknownParameter := t\<rparr>"
  using assms
  by (induction pre arbitrary: r) (auto simp: unknownFlag_def knownFlag_def Let_def)

lemma parseLoop_append:
  assumes "\<forall>a \<in> set pre. \<not> unknownFlag cfg a"
  shows "parseLoop cfg files r (pre @ rest) = parseLoop cfg files (parseLoop cfg files r pre) rest"
  using assms
  by (induction pre arbitrary: r) (auto simp: unknownFlag_def knownFlag_def Let_def)

lemma parseLoop_unknownParameter:
  assumes "\<forall>a \<in> set args. \<not> unknownFlag cfg a"
  shows "unknownParameter (parseLoop cfg files r args) = unknownParameter r"
  using assms
  by (induction args arbitrary: r) (auto simp: unknownFlag_def knownFlag_def Let_def)

lemma parseLoop_showHelp:
  assumes "\<forall>a \<in> set args. \<not> helpOrVersion cfg a"
  shows "showHelp (parseLoop cfg files r args) = showHelp r"
  using assms
  by (induction args arbitrary: r) (auto simp: helpOrVersion_def Let_def)

lemma parseLoop_showVersion:
  assumes "\<forall>a \<in> set args. \<not> helpOrVersion cfg a"
  shows "showVersion (parseLoop cfg files r args) = showVersion r"
  using assms
  by (induction args arbitrary: r) (auto simp: helpOrVersion_def Let_def)

lemma parseLoop_webUiPort:
  assumes "\<forall>a \<in> set args. \<not> startsWith a ''--webui-port=''"
  shows "webUiPort (parseLoop cfg files r args) = webUiPort r"
  using assms
  by (induction args arbitrary: r) (auto simp: Let_def)


lemma isFlag_nonempty: "isFlag t \<Longrightarrow> t \<noteq> []"
  by (auto simp: isFlag_def startsWith_def)

lemma exitStep_unknown:
  "unknownParameter (paramsOf cfg w pr) \<noteq> [] \<Longrightarrow> exitStep cfg w pr = 1"
  by (simp add: exitStep_def paramsOf_def Let_def)

lemma unknown_run:
  assumes "unknownParameter (paramsOf cfg w pr) \<noteq> []"
  shows "statusOf cfg w pr = EXIT_FAILURE \<and>
         traceOf cfg w pr =
           startupEvents cfg @
           [DisplayBadArgMessage (UnknownParameter (unknownParameter (paramsOf cfg w pr)))] \<and>
         prefs (snd (main cfg w pr)) = pr \<and>
         sigtable (snd (main cfg w pr)) = replicate NSIG SIG_DFL"
proof -
  from assms have k: "exitStep cfg w pr = 1" by (rule exitStep_unknown)
  have "segments cfg w pr ! 0 = startupEvents cfg"
    and "segments cfg w pr ! 1 = unknownEvents (paramsOf cfg w pr)"
    by (simp_all add: segments_def Let_def paramsOf_def)
  moreover have "take 1 (segments cfg w pr) = [segments cfg w pr ! 0]"
    by (simp add: segments_def Let_def)
  ultimately have "traceOf cfg w pr = startupEvents cfg @ unknownEvents (paramsOf cfg w pr)"
    by (simp add: trace_exit k)
  with assms show ?thesis
    by (simp add: statusOf_eq exitStatus_def k unknownEvents_def main_prefs main_sigtable Let_def)
qed

lemma exitStep_badport:
  "unknownParameter (paramsOf cfg w pr) = [] \<Longrightarrow>
   \<not> (\<not> Q_OS_WIN cfg \<and> showVersion (paramsOf cfg w pr)) \<Longrightarrow> \<not> showHelp (paramsOf cfg w pr) \<Longrightarrow>
   \<not> portValid (webUiPort (paramsOf cfg w pr)) \<Longrightarrow> exitStep cfg w pr = 4"
  by (simp add: exitStep_def paramsOf_def Let_def)

lemma badport_run:
  assumes "unknownParameter (paramsOf cfg w pr) = []"
    and "\<not> (\<not> Q_OS_WIN cfg \<and> showVersion (paramsOf cfg w pr))"
    and "\<not> showHelp (paramsOf cfg w pr)"
    and "\<not> portValid (webUiPort (paramsOf cfg w pr))"
  shows "statusOf cfg w pr = EXIT_FAILURE \<and>
         traceOf cfg w pr = startupEvents cfg @ [DisplayBadArgMessage BadPort] \<and>
         prefs (snd (main cfg w pr)) = pr"
proof -
  from assms have k: "exitStep cfg w pr = 4" by (rule exitStep_badport)
  have "take 4 (segments cfg w pr) =
      [startupEvents cfg, unknownEvents (paramsOf cfg w pr),
       versionEvents cfg w (paramsOf cfg w pr), helpEvents w (paramsOf cfg w pr)]"
    and "segments cfg w pr ! 4 = portEvents (paramsOf cfg w pr)"
    by (simp_all add: segments_def Let_def paramsOf_def)
  with assms have "traceOf cfg w pr = startupEvents cfg @ [DisplayBadArgMessage BadPort]"
    by (simp add: trace_exit k unknownEvents_def versionEvents_def helpEvents_def portEvents_def)
  then show ?thesis
    by (simp add: statusOf_eq exitStatus_def k main_prefs Let_def)
qed

lemma accepted_run:
  assumes "argsAccepted cfg w pr"
  shows "SetWebUiPort (webUiPort (paramsOf cfg w pr)) \<in> set (traceOf cfg w pr) \<and>
         prefWebUiPort (prefs (snd (main cfg w pr))) = webUiPort (paramsOf cfg w pr)"
proof -
  from assms have k: "5 \<le> exitStep cfg w pr" by (simp add: reach_parse)
  from assms have "portValid (webUiPort (paramsOf cfg w pr))"
    by (simp add: argsAccepted_def paramsOf_def Let_def)
  moreover have "segments cfg w pr ! 4 = portEvents (paramsOf cfg w pr)"
    by (simp add: segments_def Let_def paramsOf_def)
  ultimately have "SetWebUiPort (webUiPort (paramsOf cfg w pr)) \<in> set (traceOf cfg w pr)"
    using k by (simp add: in_traceOf_iff portEvents_def)
  with k show ?thesis by (simp add: main_prefs Let_def paramsOf_def)
qed

lemma parse_init:
  "unknownParameter (QBtCommandLineParameters_init cfg pr) = []"
  "showHelp (QBtCommandLineParameters_init cfg pr) = False"
  "showVersion (QBtCommandLineParameters_init cfg pr) = False"
  "webUiPort (QBtCommandLineParameters_init cfg pr) = prefWebUiPort pr"
  by (simp_all add: QBtCommandLineParameters_init_def)

section \<open>The value of the port option\<close>

declare decimal.simps [simp del]

lemma split_acc_no_separator: "sep \<notin> set v \<Longrightarrow> split_acc sep cur v = [rev cur @ v]"
  by (induction v arbitrary: cur) auto

lemma split_port_token:
  "CHR ''='' \<notin> set v \<Longrightarrow> split (''--webui-port='' @ v) (CHR ''='') = [''--webui-port'', v]"
  by (simp add: split_def split_acc_no_separator)

lemma parseLoop_port_step:
  assumes "isFlag tok" and "startsWith tok ''--webui-port=''"
    and "split tok (CHR ''='') = [name, v]"
  shows "parseLoop cfg files r (tok # rest) =
           parseLoop cfg files (r\<lparr>webUiPort := toInt v\<rparr>) rest"
  using assms by (auto simp: startsWith_def)

lemma parseLoop_port_token:
  assumes "CHR ''='' \<notin> set v" and "\<not> endsWith (''--webui-port='' @ v) ''.torrent''"
  shows "parseLoop cfg files r ((''--webui-port='' @ v) # rest) =
           parseLoop cfg files (r\<lparr>webUiPort := toInt v\<rparr>) rest"
proof -
  from assms(2) have "isFlag (''--webui-port='' @ v)"
    by (simp add: isFlag_def startsWith_def)
  moreover have "startsWith (''--webui-port='' @ v) ''--webui-port=''"
    by (simp add: startsWith_def)
  moreover from assms(1)
  have "split (''--webui-port='' @ v) (CHR ''='') = [''--webui-port'', v]"
    by (rule split_port_token)
  ultimately show ?thesis by (rule parseLoop_port_step)
qed

lemma parseLoop_port_ignored:
  assumes "isFlag a" and "startsWith a ''--webui-port=''" and "length (split a (CHR ''='')) \<noteq> 2"
  shows "parseLoop cfg files r (a # rest) = parseLoop cfg files r rest"
  using assms by (auto simp: startsWith_def)

lemma isDigit_char: "(d::nat) < 10 \<Longrightarrow> isDigit (char_of (48 + d))"
  by (simp add: isDigit_def Let_def)

lemma digitValue_char: "(d::nat) < 10 \<Longrightarrow> digitValue (char_of (48 + d)) = int d"
  by (simp add: digitValue_def)

lemma decimal_digits: "c \<in> set (decimal n) \<Longrightarrow> isDigit c"
proof (induction n rule: decimal.induct)
  case (1 n)
  then show ?case
    by (subst (asm) decimal.simps) (auto simp: isDigit_char split: if_splits)
qed

lemma decimal_nonempty: "decimal n \<noteq> []"
  by (subst decimal.simps) simp

lemma digitsToInt_snoc:
  "isDigit d \<Longrightarrow> digitsToInt acc (xs @ [d]) =
     map_option (\<lambda>v. 10 * v + digitValue d) (digitsToInt acc xs)"
  by (induction xs arbitrary: acc) auto

lemma digitsToInt_decimal: "digitsToInt 0 (decimal n) = Some (int n)"
proof (induction n rule: decimal.induct)
  case (1 n)
  show ?case
  proof (cases "n < 10")
    case True
    then show ?thesis
      by (subst decimal.simps) (simp add: isDigit_char digitValue_char)
  next
    case False
    with "1" have "digitsToInt 0 (decimal (n div 10)) = Some (int (n div 10))" by simp
    moreover have "10 * int (n div 10) + int (n mod 10) = int n"
      by (metis mult_div_mod_eq of_nat_add of_nat_mult of_nat_numeral)
    ultimately show ?thesis
      using False
      by (subst decimal.simps) (simp add: digitsToInt_snoc isDigit_char digitValue_char)
  qed
qed

lemma isDigit_not_space: "isDigit c \<Longrightarrow> \<not> isSpace c"
  by (simp add: isDigit_def isSpace_def Let_def)

lemma trimmed_no_space:
  assumes "\<forall>c \<in> set xs. \<not> isSpace c"
  shows "trimmed xs = xs"
proof -
  from assms have "dropWhile isSpace xs = xs"
    by (cases xs) simp_all
  moreover from assms have "dropWhile isSpace (rev xs) = rev xs"
    by (cases "rev xs") (simp, metis dropWhile.simps(2) list.set_intros(1) set_rev)
  ultimately show ?thesis by (simp add: trimmed_def)
qed

lemma toInt_decimal: "toInt (decimal n) = (if n \<le> 2147483647 then int n else 0)"
proof -
  have t: "trimmed (decimal n) = decimal n"
    by (rule trimmed_no_space) (auto dest: decimal_digits isDigit_not_space)
  have "hd (decimal n) \<in> set (decimal n)"
    by (simp add: decimal_nonempty)
  then have "isDigit (hd (decimal n))"
    by (rule decimal_digits)
  then have "hd (decimal n) \<noteq> CHR ''-''" and "hd (decimal n) \<noteq> CHR ''+''"
    by (auto simp: isDigit_def Let_def)
  then show ?thesis
    by (simp add: toInt_def Let_def t decimal_nonempty digitsToInt_decimal)
qed

lemma decimal_no_equals: "CHR ''='' \<notin> set (decimal n)"
proof
  assume "CHR ''='' \<in> set (decimal n)"
  then have "isDigit (CHR ''='')" by (rule decimal_digits)
  then show False by (simp add: isDigit_def Let_def)
qed

lemma decimal_not_torrent: "\<not> endsWith (a @ decimal n) ''.torrent''"
proof
  assume e: "endsWith (a @ decimal n) ''.torrent''"
  from e have "length ''.torrent'' \<le> length (a @ decimal n)"
    by (simp only: endsWith_def)
  then have "length (a @ decimal n) - length ''.torrent'' < length (a @ decimal n)"
    by simp
  then have "last (drop (length (a @ decimal n) - length ''.torrent'') (a @ decimal n))
      = last (a @ decimal n)"
    by (rule last_drop)
  with e have "last (a @ decimal n) = CHR ''t''" by (simp add: endsWith_def)
  then have "last (decimal n) = CHR ''t''" by (simp add: decimal_nonempty)
  moreover have "last (decimal n) \<in> set (decimal n)"
    by (simp add: decimal_nonempty)
  then have "isDigit (last (decimal n))"
    by (rule decimal_digits)
  ultimately show False by (simp add: isDigit_def Let_def)
qed

lemma digitsToInt_None_iff: "digitsToInt acc ds = None \<longleftrightarrow> \<not> list_all isDigit ds"
  by (induction ds arbitrary: acc) auto

lemma toInt_malformed:
  assumes "malformed v"
  shows "toInt v = 0"
proof -
  define t where "t = trimmed v"
  define ds where "ds = (if t \<noteq> [] \<and> (hd t = CHR ''-'' \<or> hd t = CHR ''+'') then tl t else t)"
  from assms have "ds = [] \<or> \<not> list_all isDigit ds"
    by (auto simp add: malformed_def isNumber_def Let_def t_def ds_def split: if_splits)
  then have "ds = [] \<or> digitsToInt 0 ds = None"
    by (simp add: digitsToInt_None_iff)
  then show ?thesis
    by (auto simp add: toInt_def Let_def t_def [symmetric] ds_def [symmetric])
qed

lemma trimmed_ends:
  assumes "xs \<noteq> []" and "\<not> isSpace (hd xs)" and "\<not> isSpace (last xs)"
  shows "trimmed xs = xs"
proof -
  from assms have "dropWhile isSpace xs = xs"
    by (cases xs) simp_all
  moreover from assms have "dropWhile isSpace (rev xs) = rev xs"
    by (cases "rev xs") (simp_all add: last_rev [symmetric] hd_rev)
  ultimately show ?thesis by (simp add: trimmed_def)
qed

lemma toInt_negative:
  "toInt (CHR ''-'' # decimal n) = (if n \<le> 2147483648 then - int n else 0)"
proof -
  have "last (decimal n) \<in> set (decimal n)"
    by (simp add: decimal_nonempty)
  then have "\<not> isSpace (last (decimal n))"
    by (intro isDigit_not_space decimal_digits)
  then have t: "trimmed (CHR ''-'' # decimal n) = CHR ''-'' # decimal n"
    by (intro trimmed_ends) (simp_all add: decimal_nonempty isSpace_def Let_def)
  show ?thesis
    by (simp add: toInt_def Let_def t decimal_nonempty digitsToInt_decimal)
qed

lemma toInt_decimalInt:
  "toInt (decimalInt n) = (if - 2147483648 \<le> n \<and> n \<le> 2147483647 then n else 0)"
  by (auto simp add: decimalInt_def toInt_negative toInt_decimal)

lemma decimalInt_no_equals: "CHR ''='' \<notin> set (decimalInt n)"
  by (simp add: decimalInt_def decimal_no_equals)

lemma decimalInt_not_torrent: "\<not> endsWith (a @ decimalInt n) ''.torrent''"
proof (cases "n < 0")
  case True
  have "\<not> endsWith ((a @ [CHR ''-'']) @ decimal (nat (- n))) ''.torrent''"
    by (rule decimal_not_torrent)
  with True show ?thesis by (simp add: decimalInt_def)
next
  case False
  then show ?thesis by (simp add: decimalInt_def decimal_not_torrent)
qed

lemma parseLoop_torrent_name:
  assumes "startsWith a ''--webui-port=''" and "endsWith a ''.torrent''"
  shows "parseLoop cfg files r (a # rest) =
           parseLoop cfg files
             (r\<lparr>torrents := torrents r @ [if fileExists files a then absoluteFilePath files a else a]\<rparr>)
             rest"
proof -
  from assms(1) have "length a \<noteq> 2"
    by (auto simp: startsWith_def)
  with assms(2) have "\<not> isFlag a" by (simp add: isFlag_def)
  then show ?thesis by simp
qed

lemma port_token_params:
  assumes args: "drop 1 (appArguments w) = pre @ (''--webui-port='' @ v) # post"
    and v: "CHR ''='' \<notin> set v" "\<not> endsWith (''--webui-port='' @ v) ''.torrent''"
    and pre: "\<forall>a \<in> set pre. \<not> unknownFlag cfg a \<and> \<not> helpOrVersion cfg a"
    and post: "\<forall>a \<in> set post. \<not> unknownFlag cfg a \<and> \<not> helpOrVersion cfg a \<and>
                 \<not> startsWith a ''--webui-port=''"
  shows "webUiPort (paramsOf cfg w pr) = toInt v \<and> unknownParameter (paramsOf cfg w pr) = [] \<and>
         \<not> showHelp (paramsOf cfg w pr) \<and> \<not> showVersion (paramsOf cfg w pr)"
proof -
  define r0 where "r0 = parseLoop cfg (fs w) (QBtCommandLineParameters_init cfg pr) pre"
  define r1 where "r1 = r0\<lparr>webUiPort := toInt v\<rparr>"
  from pre have known: "\<forall>a \<in> set pre. \<not> unknownFlag cfg a" by simp
  have "paramsOf cfg w pr =
      parseLoop cfg (fs w) (QBtCommandLineParameters_init cfg pr)
        (pre @ (''--webui-port='' @ v) # post)"
    by (simp only: paramsOf_def parseCommandLine_def args)
  also have "\<dots> = parseLoop cfg (fs w) r0 ((''--webui-port='' @ v) # post)"
    unfolding r0_def using known by (rule parseLoop_append)
  also have "\<dots> = parseLoop cfg (fs w) r1 post"
    unfolding r1_def using v by (rule parseLoop_port_token)
  finally have params: "paramsOf cfg w pr = parseLoop cfg (fs w) r1 post" .
  from pre have "unknownParameter r0 = []" and "\<not> showHelp r0" and "\<not> showVersion r0"
    by (simp_all add: r0_def parseLoop_unknownParameter parseLoop_showHelp parseLoop_showVersion
        parse_init)
  then have "unknownParameter r1 = []" and "\<not> showHelp r1" and "\<not> showVersion r1"
      and "webUiPort r1 = toInt v"
    by (simp_all add: r1_def)
  with post show ?thesis
    by (simp add: params parseLoop_unknownParameter parseLoop_showHelp parseLoop_showVersion
        parseLoop_webUiPort)
qed

lemma port_token_run:
  assumes "drop 1 (appArguments w) = pre @ (''--webui-port='' @ v) # post"
    and "CHR ''='' \<notin> set v" and "\<not> endsWith (''--webui-port='' @ v) ''.torrent''"
    and "\<forall>a \<in> set pre. \<not> unknownFlag cfg a \<and> \<not> helpOrVersion cfg a"
    and "\<forall>a \<in> set post. \<not> unknownFlag cfg a \<and> \<not> helpOrVersion cfg a \<and>
           \<not> startsWith a ''--webui-port=''"
  shows "webUiPort (paramsOf cfg w pr) = toInt v \<and>
         (portValid (toInt v) \<longrightarrow>
            SetWebUiPort (toInt v) \<in> set (traceOf cfg w pr) \<and>
            prefWebUiPort (prefs (snd (main cfg w pr))) = toInt v) \<and>
         (\<not> portValid (toInt v) \<longrightarrow>
            statusOf cfg w pr = EXIT_FAILURE \<and>
            traceOf cfg w pr = startupEvents cfg @ [DisplayBadArgMessage BadPort] \<and>
            prefs (snd (main cfg w pr)) = pr)"
proof -
  note p = port_token_params [OF assms, of pr]
  have applied: "SetWebUiPort (toInt v) \<in> set (traceOf cfg w pr) \<and>
      prefWebUiPort (prefs (snd (main cfg w pr))) = toInt v" if "portValid (toInt v)"
  proof -
    from p that have "argsAccepted cfg w pr"
      by (simp add: argsAccepted_def Let_def paramsOf_def)
    then show ?thesis using accepted_run [of cfg w pr] p by simp
  qed
  have rejected: "statusOf cfg w pr = EXIT_FAILURE \<and>
      traceOf cfg w pr = startupEvents cfg @ [DisplayBadArgMessage BadPort] \<and>
      prefs (snd (main cfg w pr)) = pr" if "\<not> portValid (toInt v)"
    using p that by (intro badport_run) simp_all
  from p applied rejected show ?thesis by blast
qed

section \<open>The order of the blocks\<close>

lemma rank_lifecycleOfStep_mono:
  "i \<le> j \<Longrightarrow> rank (lifecycleOfStep i) \<le> rank (lifecycleOfStep j)"
  by (simp add: lifecycleOfStep_def)

lemma sorted_lifecycle: "sorted (map (rank \<circ> lifecycleOf) (traceOf cfg w pr))"
proof -
  have "sorted (map stepOf (traceOf cfg w pr))"
    by (simp add: traceOf_def sorted_stepOf)
  then have "sorted (map (\<lambda>k. rank (lifecycleOfStep k)) (map stepOf (traceOf cfg w pr)))"
    by (rule sorted_map_mono) (simp add: mono_on_def rank_lifecycleOfStep_mono)
  then show ?thesis by (simp add: comp_def lifecycleOf_def)
qed

lemma segments_early:
  "segments cfg w pr ! 0 = startupEvents cfg"
  "segments cfg w pr ! 1 = unknownEvents (paramsOf cfg w pr)"
  "segments cfg w pr ! Suc 0 = unknownEvents (paramsOf cfg w pr)"
  "segments cfg w pr ! 2 = versionEvents cfg w (paramsOf cfg w pr)"
  "segments cfg w pr ! 3 = helpEvents w (paramsOf cfg w pr)"
  "segments cfg w pr ! 4 = portEvents (paramsOf cfg w pr)"
  "segments cfg w pr ! 5 = envEvents w"
  "segments cfg w pr ! 8 = platformEvents cfg"
  by (simp_all add: segments_def Let_def paramsOf_def)

lemma exitStep_version:
  "2 \<le> exitStep cfg w pr \<Longrightarrow> \<not> Q_OS_WIN cfg \<Longrightarrow> showVersion (paramsOf cfg w pr)
     \<Longrightarrow> exitStep cfg w pr = 2"
  by (auto simp add: exitStep_def paramsOf_def Let_def split: if_splits)

lemma exitStep_usage:
  "3 \<le> exitStep cfg w pr \<Longrightarrow> showHelp (paramsOf cfg w pr) \<Longrightarrow> exitStep cfg w pr = 3"
  by (auto simp add: exitStep_def paramsOf_def Let_def split: if_splits)

lemma exitStep_port:
  "4 \<le> exitStep cfg w pr \<Longrightarrow> \<not> portValid (webUiPort (paramsOf cfg w pr))
     \<Longrightarrow> exitStep cfg w pr = 4"
  by (auto simp add: exitStep_def paramsOf_def Let_def split: if_splits)

lemma exitStep_owner:
  "7 \<le> exitStep cfg w pr \<Longrightarrow> isRunning w 1 \<Longrightarrow> exitStep cfg w pr = 7"
  by (auto simp add: exitStep_def paramsOf_def Let_def split: if_splits)

lemma exitStep_second_owner:
  "11 \<le> exitStep cfg w pr \<Longrightarrow> daemonMode cfg (paramsOf cfg w pr) \<Longrightarrow> isRunning w 2
     \<Longrightarrow> exitStep cfg w pr = 11"
  by (auto simp add: exitStep_def paramsOf_def Let_def split: if_splits)

lemma last_at_exit:
  assumes "exitStep cfg w pr = k" and "segments cfg w pr ! k = xs @ [e]"
  shows "last (traceOf cfg w pr) = e"
  using assms by (simp add: trace_exit)

lemma terminal_last:
  assumes "e \<in> set (traceOf cfg w pr)" and "terminal e"
  shows "last (traceOf cfg w pr) = e"
proof -
  from assms(1) have k: "stepOf e \<le> exitStep cfg w pr"
    and seg: "e \<in> set (segments cfg w pr ! stepOf e)"
    by (simp_all add: in_traceOf_iff)
  show ?thesis
  proof (cases e)
    case (DisplayBadArgMessage b)
    show ?thesis
    proof (cases b)
      case (UnknownParameter a)
      with DisplayBadArgMessage seg have set: "unknownParameter (paramsOf cfg w pr) \<noteq> []"
        and e: "segments cfg w pr ! 1 = [] @ [e]"
        by (auto simp: segments_early unknownEvents_def split: if_splits)
      from set have "exitStep cfg w pr = 1" by (rule exitStep_unknown)
      then show ?thesis using e by (rule last_at_exit)
    next
      case (MustBeSingle a)
      show ?thesis
      proof (cases "a = ''-v (or --version)''")
        case True
        with MustBeSingle DisplayBadArgMessage seg k
        have "2 \<le> exitStep cfg w pr" and "\<not> Q_OS_WIN cfg" and "showVersion (paramsOf cfg w pr)"
          and e: "segments cfg w pr ! 2 = [] @ [e]"
          by (auto simp: segments_early versionEvents_def split: if_splits)
        then have "exitStep cfg w pr = 2" by (intro exitStep_version)
        then show ?thesis using e by (rule last_at_exit)
      next
        case False
        with MustBeSingle DisplayBadArgMessage seg k
        have "3 \<le> exitStep cfg w pr" and "showHelp (paramsOf cfg w pr)"
          and e: "segments cfg w pr ! 3 = [] @ [e]"
          by (auto simp: segments_early helpEvents_def split: if_splits)
        then have "exitStep cfg w pr = 3" by (intro exitStep_usage)
        then show ?thesis using e by (rule last_at_exit)
      qed
    next
      case BadPort
      with DisplayBadArgMessage seg k
      have "4 \<le> exitStep cfg w pr" and "\<not> portValid (webUiPort (paramsOf cfg w pr))"
        and e: "segments cfg w pr ! 4 = [] @ [e]"
        by (auto simp: segments_early portEvents_def split: if_splits)
      then have "exitStep cfg w pr = 4" by (intro exitStep_port)
      then show ?thesis using e by (rule last_at_exit)
    next
      case AlreadyRunningDaemon
      with DisplayBadArgMessage seg k
      have "7 \<le> exitStep cfg w pr" and "isRunning w 1"
        and e: "segments cfg w pr ! 7 = [IsRunning 1 True] @ [e]"
        by (auto simp: segments_nth runningEvents_def split: if_splits)
      then have "exitStep cfg w pr = 7" by (intro exitStep_owner)
      then show ?thesis using e by (rule last_at_exit)
    qed
  next
    case DisplayVersion
    with seg k
    have "2 \<le> exitStep cfg w pr" and "\<not> Q_OS_WIN cfg" and "showVersion (paramsOf cfg w pr)"
      and e: "segments cfg w pr ! 2 = [] @ [e]"
      by (auto simp: segments_early versionEvents_def split: if_splits)
    then have "exitStep cfg w pr = 2" by (intro exitStep_version)
    then show ?thesis using e by (rule last_at_exit)
  next
    case (DisplayUsage a)
    with seg k
    have "3 \<le> exitStep cfg w pr" and "showHelp (paramsOf cfg w pr)"
      and e: "segments cfg w pr ! 3 = [] @ [e]"
      by (auto simp: segments_early helpEvents_def split: if_splits)
    then have "exitStep cfg w pr = 3" by (intro exitStep_usage)
    then show ?thesis using e by (rule last_at_exit)
  next
    case (SendParams n ts)
    with seg k
    have "7 \<le> exitStep cfg w pr" and "isRunning w 1"
      and e: "segments cfg w pr ! 7 =
          [IsRunning 1 True, QDebug ''qBittorrent is already running for this user.'',
           Msleep 300] @ [e]"
      by (auto simp: segments_nth runningEvents_def split: if_splits)
    then have "exitStep cfg w pr = 7" by (intro exitStep_owner)
    then show ?thesis using e by (rule last_at_exit)
  next
    case (Upgrade a r)
    with seg k assms(2)
    have "9 \<le> exitStep cfg w pr" and "\<not> upgradeResult w"
      and e: "segments cfg w pr ! 9 = [] @ [e]"
      by (auto simp: segments_nth upgradeEvents_def split: if_splits)
    then have "exitStep cfg w pr = 9" by (intro exitStep_upgrade)
    then show ?thesis using e by (rule last_at_exit)
  next
    case (QCritical a)
    with seg k
    have "10 \<le> exitStep cfg w pr" and "daemonMode cfg (paramsOf cfg w pr)"
      and "daemonResult w \<noteq> 0"
      and e: "segments cfg w pr ! 10 = [DeleteApplication 1, Daemon (daemonResult w)] @ [e]"
      by (auto simp: segments_nth daemonEvents_def daemonMode_def split: if_splits)
    then have "exitStep cfg w pr = 10" by (intro exitStep_daemon_failed)
    then show ?thesis using e by (rule last_at_exit)
  next
    case (IsRunning n r)
    with seg k assms(2)
    have "11 \<le> exitStep cfg w pr" and "daemonMode cfg (paramsOf cfg w pr)" and "isRunning w 2"
      and e: "segments cfg w pr ! 11 = [NewApplication 2] @ [e]"
      by (auto simp: segments_nth reacquireEvents_def split: if_splits)
    then have "exitStep cfg w pr = 11" by (intro exitStep_second_owner)
    then show ?thesis using e by (rule last_at_exit)
  qed (use assms(2) in simp_all)
qed


lemma first_check_in_trace:
  assumes "8 \<le> exitStep cfg w pr"
  shows "IsRunning 1 False \<in> set (traceOf cfg w pr)"
proof -
  from assms have "\<not> isRunning w 1" by (simp add: reach_upgrade)
  moreover from assms have "7 \<le> exitStep cfg w pr" by simp
  ultimately show ?thesis by (simp add: in_traceOf_iff segments_nth runningEvents_def)
qed

lemma upgrade_in_trace:
  assumes "10 \<le> exitStep cfg w pr"
  shows "\<exists>a. Upgrade a True \<in> set (traceOf cfg w pr)"
proof -
  from assms have "upgradeResult w" by (simp add: reach_daemonize)
  moreover from assms have "9 \<le> exitStep cfg w pr" by simp
  ultimately show ?thesis by (simp add: in_traceOf_iff segments_nth upgradeEvents_def)
qed

lemma daemon_in_trace:
  assumes "11 \<le> exitStep cfg w pr" and "daemonMode cfg (paramsOf cfg w pr)"
  shows "Daemon 0 \<in> set (traceOf cfg w pr)"
proof -
  from assms have "daemonResult w = 0" by (simp add: reach_reacquire paramsOf_def)
  moreover from assms have "10 \<le> exitStep cfg w pr" by simp
  ultimately show ?thesis
    using assms(2) by (simp add: in_traceOf_iff segments_nth daemonEvents_def daemonMode_def)
qed

lemma second_check_in_trace:
  assumes "12 \<le> exitStep cfg w pr" and "daemonMode cfg (paramsOf cfg w pr)"
  shows "IsRunning 2 False \<in> set (traceOf cfg w pr)"
proof -
  from assms have "\<not> isRunning w 2" by (simp add: reach_exec paramsOf_def)
  moreover from assms have "11 \<le> exitStep cfg w pr" by simp
  ultimately show ?thesis
    using assms(2) by (simp add: in_traceOf_iff segments_nth reacquireEvents_def)
qed

section \<open>The upgrade step\<close>

text \<open>
  Claim C6. If the upgrade step fails, that is, the trace of the run holds a call of
  \<^verbatim>\<open>upgrade\<close> that returned false, then \<^verbatim>\<open>main\<close> returns \<^verbatim>\<open>EXIT_FAILURE\<close> (which is not
  zero), \<^verbatim>\<open>app->exec\<close> is never called, and the failed call is the last thing the
  process did: nothing of the engine is set up after it.
\<close>

theorem upgrade_failure_aborts:
  assumes "Upgrade a False \<in> set (trace (snd (main cfg w pr)))"
  shows "fst (main cfg w pr) = EXIT_FAILURE \<and> fst (main cfg w pr) \<noteq> 0 \<and>
         (\<forall>n ts. Exec n ts \<notin> set (trace (snd (main cfg w pr)))) \<and>
         last (trace (snd (main cfg w pr))) = Upgrade a False"
proof -
  from assms have reached: "9 \<le> exitStep cfg w pr"
    and ev: "Upgrade a False \<in> set (segments cfg w pr ! 9)"
    by (simp_all add: in_trace_iff)
  from ev have failed: "\<not> upgradeResult w"
    and seg: "segments cfg w pr ! 9 = [Upgrade a False]"
    by (auto simp: segments_def Let_def upgradeEvents_def)
  from reached failed have k: "exitStep cfg w pr = 9" by (rule exitStep_upgrade)
  have status: "fst (main cfg w pr) = EXIT_FAILURE"
    by (simp add: main_status exitStatus_def k)
  have no_exec: "Exec n ts \<notin> set (trace (snd (main cfg w pr)))" for n ts
    by (simp add: in_trace_iff k)
  have "last (trace (snd (main cfg w pr))) = Upgrade a False"
    by (simp add: trace_last_segment k seg)
  with status no_exec show ?thesis by (simp add: EXIT_FAILURE_def)
qed

theorem upgrade_failure_aborts_witness:
  "Upgrade (Some True) False \<in> set (trace (snd (main noGuiBuild ((launch [])\<lparr>upgradeResult := False\<rparr>) acceptedPrefs)))
   \<and> fst (main noGuiBuild ((launch [])\<lparr>upgradeResult := False\<rparr>) acceptedPrefs) = EXIT_FAILURE
   \<and> last (trace (snd (main noGuiBuild ((launch [])\<lparr>upgradeResult := False\<rparr>) acceptedPrefs))) = Upgrade (Some True) False"
proof -
  have h: "Upgrade (Some True) False \<in> set (trace (snd (main noGuiBuild ((launch [])\<lparr>upgradeResult := False\<rparr>) acceptedPrefs)))"
    by code_simp
  from upgrade_failure_aborts [OF h] h show ?thesis by simp
qed


section \<open>Daemonizing\<close>




section \<open>The legal notice\<close>




section \<open>Unknown parameters\<close>

text \<open>
  Claim C8. When the arguments after the program name are \<open>pre @ t # post\<close>, no token
  of \<open>pre\<close> is an option the parser does not know, and \<open>t\<close> is one, then the parsed
  parameters are those of \<open>pre\<close> alone with \<open>unknownParameter\<close> set to \<open>t\<close>: nothing
  of \<open>post\<close> is read. \<^verbatim>\<open>main\<close> then prints the bad-argument message for \<open>t\<close> and
  returns \<^verbatim>\<open>EXIT_FAILURE\<close>; after the start-up lines that is its only event, so neither
  the version or help output, nor the port, the legal notice, the already-running
  check, the upgrade or \<^verbatim>\<open>app->exec\<close> happens, and the preferences and the signal table
  are untouched. The same holds for every run whose \<open>unknownParameter\<close> is set.
\<close>

theorem unknown_parameter_aborts:
  assumes "drop 1 (appArguments w) = pre @ t # post"
    and "\<forall>a \<in> set pre. \<not> unknownFlag cfg a"
    and "unknownFlag cfg t"
  shows "paramsOf cfg w pr =
           (parseLoop cfg (fs w) (QBtCommandLineParameters_init cfg pr) pre)\<lparr>unknownParameter := t\<rparr> \<and>
         statusOf cfg w pr = EXIT_FAILURE \<and> statusOf cfg w pr \<noteq> 0 \<and>
         traceOf cfg w pr = startupEvents cfg @ [DisplayBadArgMessage (UnknownParameter t)] \<and>
         prefs (snd (main cfg w pr)) = pr \<and>
         sigtable (snd (main cfg w pr)) = replicate NSIG SIG_DFL \<and>
         (\<forall>w' pr'. unknownParameter (paramsOf cfg w' pr') \<noteq> [] \<longrightarrow>
            statusOf cfg w' pr' = EXIT_FAILURE \<and>
            traceOf cfg w' pr' =
              startupEvents cfg @
              [DisplayBadArgMessage (UnknownParameter (unknownParameter (paramsOf cfg w' pr')))])"
proof -
  have params: "paramsOf cfg w pr =
      (parseLoop cfg (fs w) (QBtCommandLineParameters_init cfg pr) pre)\<lparr>unknownParameter := t\<rparr>"
    using assms by (simp add: paramsOf_def parseCommandLine_def parseLoop_unknown)
  from assms(3) have "t \<noteq> []" by (simp add: unknownFlag_def isFlag_nonempty)
  with params have set: "unknownParameter (paramsOf cfg w pr) \<noteq> []"
    and "unknownParameter (paramsOf cfg w pr) = t"
    by simp_all
  with unknown_run [OF set] params show ?thesis
    using unknown_run by (simp add: EXIT_FAILURE_def)
qed

theorem unknown_parameter_aborts_witness:
  "drop 1 (appArguments (launch [''a.torrent'', ''--bogus'', ''-h''])) = [''a.torrent''] @ ''--bogus'' # [''-h''] \<and>
   \<not> unknownFlag guiBuild ''a.torrent'' \<and> unknownFlag guiBuild ''--bogus'' \<and>
   statusOf guiBuild (launch [''a.torrent'', ''--bogus'', ''-h'']) freshPrefs = EXIT_FAILURE \<and>
   traceOf guiBuild (launch [''a.torrent'', ''--bogus'', ''-h'']) freshPrefs =
     startupEvents guiBuild @ [DisplayBadArgMessage (UnknownParameter ''--bogus'')] \<and>
   prefs (snd (main guiBuild (launch [''a.torrent'', ''--bogus'', ''-h'']) freshPrefs)) = freshPrefs"
proof -
  have args: "drop 1 (appArguments (launch [''a.torrent'', ''--bogus'', ''-h'']))
      = [''a.torrent''] @ ''--bogus'' # [''-h'']"
    by (simp add: launch_def)
  have pre: "\<forall>a \<in> set [''a.torrent'']. \<not> unknownFlag guiBuild a"
    by code_simp
  have t: "unknownFlag guiBuild ''--bogus''"
    by code_simp
  from unknown_parameter_aborts [OF args pre t, of freshPrefs] args pre t
  show ?thesis by simp
qed


section \<open>The port is written back\<close>

text \<open>
  Claim C10. Every run whose arguments pass the checks of lines 150-189 calls
  \<^verbatim>\<open>setWebUiPort\<close> with the parsed port, and the stored port is that value at exit.
  When no argument starts with \<^verbatim>\<open>--webui-port=\<close> the parsed port is the stored one.
  So a launch without arguments whose stored port is outside 1..65535 prints the
  bad-port message and returns \<^verbatim>\<open>EXIT_FAILURE\<close>.
\<close>

theorem port_written_back:
  "(argsAccepted cfg w pr \<longrightarrow>
      SetWebUiPort (webUiPort (paramsOf cfg w pr)) \<in> set (traceOf cfg w pr) \<and>
      prefWebUiPort (prefs (snd (main cfg w pr))) = webUiPort (paramsOf cfg w pr)) \<and>
   ((\<forall>a \<in> set (drop 1 (appArguments w)). \<not> startsWith a ''--webui-port='') \<longrightarrow>
      webUiPort (paramsOf cfg w pr) = prefWebUiPort pr) \<and>
   (drop 1 (appArguments w) = [] \<and> \<not> portValid (prefWebUiPort pr) \<longrightarrow>
      statusOf cfg w pr = EXIT_FAILURE \<and> statusOf cfg w pr \<noteq> 0 \<and>
      traceOf cfg w pr = startupEvents cfg @ [DisplayBadArgMessage BadPort])"
proof -
  have default: "webUiPort (paramsOf cfg w pr) = prefWebUiPort pr"
    if "\<forall>a \<in> set (drop 1 (appArguments w)). \<not> startsWith a ''--webui-port=''"
    using that by (simp add: paramsOf_def parseCommandLine_def parseLoop_webUiPort parse_init)
  have rejected: "statusOf cfg w pr = EXIT_FAILURE \<and> statusOf cfg w pr \<noteq> 0 \<and>
      traceOf cfg w pr = startupEvents cfg @ [DisplayBadArgMessage BadPort]"
    if "drop 1 (appArguments w) = []" and "\<not> portValid (prefWebUiPort pr)"
  proof -
    from that(1) have "paramsOf cfg w pr = QBtCommandLineParameters_init cfg pr"
      by (simp add: paramsOf_def parseCommandLine_def)
    with that(2) have "statusOf cfg w pr = EXIT_FAILURE \<and>
        traceOf cfg w pr = startupEvents cfg @ [DisplayBadArgMessage BadPort] \<and>
        prefs (snd (main cfg w pr)) = pr"
      by (intro badport_run) (simp_all add: parse_init)
    then show ?thesis by (simp add: EXIT_FAILURE_def)
  qed
  from accepted_run default rejected show ?thesis by blast
qed

theorem port_written_back_witness:
  "argsAccepted guiBuild (launch [''a.torrent'']) acceptedPrefs \<and>
   \<not> startsWith ''a.torrent'' ''--webui-port='' \<and>
   webUiPort (paramsOf guiBuild (launch [''a.torrent'']) acceptedPrefs) = prefWebUiPort acceptedPrefs \<and>
   SetWebUiPort (webUiPort (paramsOf guiBuild (launch [''a.torrent'']) acceptedPrefs))
     \<in> set (traceOf guiBuild (launch [''a.torrent'']) acceptedPrefs) \<and>
   drop 1 (appArguments (launch [])) = [] \<and>
   \<not> portValid (prefWebUiPort (acceptedPrefs\<lparr>prefWebUiPort := 0\<rparr>)) \<and>
   statusOf guiBuild (launch []) (acceptedPrefs\<lparr>prefWebUiPort := 0\<rparr>) = EXIT_FAILURE \<and>
   traceOf guiBuild (launch []) (acceptedPrefs\<lparr>prefWebUiPort := 0\<rparr>) =
     startupEvents guiBuild @ [DisplayBadArgMessage BadPort]"
proof -
  have a1: "argsAccepted guiBuild (launch [''a.torrent'']) acceptedPrefs"
    by code_simp
  have a2: "\<forall>a \<in> set (drop 1 (appArguments (launch [''a.torrent'']))). \<not> startsWith a ''--webui-port=''"
    by code_simp
  have b1: "drop 1 (appArguments (launch [])) = []"
    by (simp add: launch_def)
  have b2: "\<not> portValid (prefWebUiPort (acceptedPrefs\<lparr>prefWebUiPort := 0\<rparr>))"
    by (simp add: portValid_def)
  note run1 = port_written_back [of guiBuild "launch [''a.torrent'']" acceptedPrefs]
  note run2 = port_written_back [of guiBuild "launch []" "acceptedPrefs\<lparr>prefWebUiPort := 0\<rparr>"]
  from run1 a1 have c1: "SetWebUiPort (webUiPort (paramsOf guiBuild (launch [''a.torrent'']) acceptedPrefs))
      \<in> set (traceOf guiBuild (launch [''a.torrent'']) acceptedPrefs)"
    by blast
  from run1 a2 have c2: "webUiPort (paramsOf guiBuild (launch [''a.torrent'']) acceptedPrefs)
      = prefWebUiPort acceptedPrefs"
    by blast
  from run2 b1 b2 have c3: "statusOf guiBuild (launch []) (acceptedPrefs\<lparr>prefWebUiPort := 0\<rparr>) = EXIT_FAILURE \<and>
      traceOf guiBuild (launch []) (acceptedPrefs\<lparr>prefWebUiPort := 0\<rparr>) =
        startupEvents guiBuild @ [DisplayBadArgMessage BadPort]"
    by blast
  have a3: "\<not> startsWith ''a.torrent'' ''--webui-port=''"
    by code_simp
  from a1 a3 c2 c1 b1 b2 c3 show ?thesis by blast
qed


section \<open>Signals\<close>

declare deliver.simps [simp del] sigAbnormalHandler.simps [simp del]

lemma disposition_emit: "disposition (emit e p) s = disposition p s"
  by (simp add: disposition_def emit_def)

lemma trace_emit: "trace (emit e p) = trace p @ [e]"
  by (simp add: emit_def)

lemma disposition_signal: "disposition (signal s SIG_DFL p) s = SIG_DFL"
  by (simp add: disposition_def signal_def emit_def)

lemma trace_signal: "trace (signal s h p) = trace p @ [Signal s h]"
  by (simp add: signal_def emit_def)

lemma disposition_sigAbnormalReport: "disposition (sigAbnormalReport cfg s p) s = SIG_DFL"
  by (simp add: sigAbnormalReport_def Let_def disposition_signal)

lemma trace_sigAbnormalReport:
  "\<exists>report. trace (sigAbnormalReport cfg s p) = trace p @ report @ [Signal s SIG_DFL]"
  by (simp add: sigAbnormalReport_def Let_def trace_signal trace_emit)

lemma disposition_sigNormalHandler: "disposition (sigNormalHandler cfg s p) s = SIG_DFL"
  by (simp add: sigNormalHandler_def Let_def disposition_emit disposition_signal)

lemma trace_sigNormalHandler:
  "\<exists>notice. trace (sigNormalHandler cfg s p) = trace p @ notice @ [Signal s SIG_DFL, QAppExit]"
  by (simp add: sigNormalHandler_def Let_def trace_signal trace_emit)

lemma deliver_default:
  "disposition p s = SIG_DFL \<Longrightarrow> deliver cfg s p = emit (DefaultAction s) p"
  by (subst deliver.simps) simp

lemma deliver_normal:
  "disposition p s = SigNormalHandler \<Longrightarrow> deliver cfg s p = sigNormalHandler cfg s p"
  by (subst deliver.simps) simp

lemma deliver_abnormal:
  "disposition p s = SigAbnormalHandler \<Longrightarrow>
     deliver cfg s p = emit (DefaultAction s) (emit (Raise s) (sigAbnormalReport cfg s p))"
  by (subst deliver.simps)
     (simp add: sigAbnormalHandler.simps deliver_default disposition_emit
        disposition_sigAbnormalReport)

lemma installed_dispositions:
  assumes "Q_OS_UNIX cfg \<or> STACKTRACE_WIN cfg" and "Exec n ts \<in> set (traceOf cfg w pr)"
  shows "disposition (snd (main cfg w pr)) SIGINT = SigNormalHandler \<and>
         disposition (snd (main cfg w pr)) SIGTERM = SigNormalHandler \<and>
         disposition (snd (main cfg w pr)) SIGABRT = SigAbnormalHandler \<and>
         disposition (snd (main cfg w pr)) SIGSEGV = SigAbnormalHandler"
proof -
  from assms(2) have "13 \<le> exitStep cfg w pr" by (simp add: in_traceOf_iff)
  with exitStep_le [of cfg w pr] have "exitStep cfg w pr = 13" by simp
  with assms(1) show ?thesis
    by (simp add: disposition_def main_sigtable installedTable_def NSIG_def
        SIGINT_def SIGTERM_def SIGABRT_def SIGSEGV_def)
qed

text \<open>
  Claim C7. When a signal with an installed handler is delivered, its disposition is
  \<^verbatim>\<open>SIG_DFL\<close> once the delivery is over, so a second delivery of the same signal is
  the default action of the system and runs no handler. \<^verbatim>\<open>sigNormalHandler\<close> ends with
  \<^verbatim>\<open>signal(signum, SIG_DFL)\<close> and then \<^verbatim>\<open>qApp->exit()\<close>; \<^verbatim>\<open>sigAbnormalHandler\<close> ends
  with \<^verbatim>\<open>signal(signum, SIG_DFL)\<close>, then \<^verbatim>\<open>raise(signum)\<close>, and that raised signal
  already meets the default action. In a build with signal handlers, a run that
  reaches \<^verbatim>\<open>app->exec\<close> has \<^verbatim>\<open>sigNormalHandler\<close> installed for SIGINT and SIGTERM and
  \<^verbatim>\<open>sigAbnormalHandler\<close> for SIGABRT and SIGSEGV.
\<close>

theorem handler_runs_once:
  "(disposition p s \<noteq> SIG_DFL \<longrightarrow>
      disposition (deliver cfg s p) s = SIG_DFL \<and>
      deliver cfg s (deliver cfg s p) = emit (DefaultAction s) (deliver cfg s p)) \<and>
   (disposition p s = SigNormalHandler \<longrightarrow>
      (\<exists>notice. trace (deliver cfg s p) = trace p @ notice @ [Signal s SIG_DFL, QAppExit])) \<and>
   (disposition p s = SigAbnormalHandler \<longrightarrow>
      (\<exists>report. trace (deliver cfg s p) =
         trace p @ report @ [Signal s SIG_DFL, Raise s, DefaultAction s])) \<and>
   ((Q_OS_UNIX cfg \<or> STACKTRACE_WIN cfg) \<and> Exec n ts \<in> set (traceOf cfg w pr) \<longrightarrow>
      disposition (snd (main cfg w pr)) SIGINT = SigNormalHandler \<and>
      disposition (snd (main cfg w pr)) SIGTERM = SigNormalHandler \<and>
      disposition (snd (main cfg w pr)) SIGABRT = SigAbnormalHandler \<and>
      disposition (snd (main cfg w pr)) SIGSEGV = SigAbnormalHandler)"
proof -
  have reset: "disposition (deliver cfg s p) s = SIG_DFL" if "disposition p s \<noteq> SIG_DFL"
  proof (cases "disposition p s")
    case SIG_DFL
    with that show ?thesis by simp
  next
    case SigNormalHandler
    then show ?thesis by (simp add: deliver_normal disposition_sigNormalHandler)
  next
    case SigAbnormalHandler
    then show ?thesis
      by (simp add: deliver_abnormal disposition_emit disposition_sigAbnormalReport)
  qed
  then have second: "deliver cfg s (deliver cfg s p) = emit (DefaultAction s) (deliver cfg s p)"
    if "disposition p s \<noteq> SIG_DFL"
    using that by (simp add: deliver_default)
  have normal: "\<exists>notice. trace (deliver cfg s p) = trace p @ notice @ [Signal s SIG_DFL, QAppExit]"
    if "disposition p s = SigNormalHandler"
    using that trace_sigNormalHandler [of cfg s p] by (simp add: deliver_normal)
  have abnormal: "\<exists>report. trace (deliver cfg s p) =
      trace p @ report @ [Signal s SIG_DFL, Raise s, DefaultAction s]"
    if "disposition p s = SigAbnormalHandler"
  proof -
    obtain report where "trace (sigAbnormalReport cfg s p) = trace p @ report @ [Signal s SIG_DFL]"
      using trace_sigAbnormalReport by blast
    with that have "trace (deliver cfg s p) =
        trace p @ report @ [Signal s SIG_DFL, Raise s, DefaultAction s]"
      by (simp add: deliver_abnormal trace_emit)
    then show ?thesis by blast
  qed
  from reset second normal abnormal installed_dispositions [of cfg n ts w pr]
  show ?thesis by blast
qed

theorem handler_runs_once_witness:
  "Exec 1 [] \<in> set (traceOf noGuiBuild (launch []) acceptedPrefs) \<and>
   disposition (snd (main noGuiBuild (launch []) acceptedPrefs)) SIGSEGV = SigAbnormalHandler \<and>
   disposition (snd (main noGuiBuild (launch []) acceptedPrefs)) SIGINT = SigNormalHandler \<and>
   disposition (deliver noGuiBuild SIGSEGV (snd (main noGuiBuild (launch []) acceptedPrefs))) SIGSEGV
     = SIG_DFL \<and>
   disposition (deliver noGuiBuild SIGINT (snd (main noGuiBuild (launch []) acceptedPrefs))) SIGINT
     = SIG_DFL \<and>
   deliver noGuiBuild SIGSEGV (deliver noGuiBuild SIGSEGV (snd (main noGuiBuild (launch []) acceptedPrefs)))
     = emit (DefaultAction SIGSEGV)
         (deliver noGuiBuild SIGSEGV (snd (main noGuiBuild (launch []) acceptedPrefs)))"
proof -
  have unix: "Q_OS_UNIX noGuiBuild \<or> STACKTRACE_WIN noGuiBuild"
    by (simp add: noGuiBuild_def)
  have started: "Exec 1 [] \<in> set (traceOf noGuiBuild (launch []) acceptedPrefs)"
    by code_simp
  note segv = handler_runs_once [of "snd (main noGuiBuild (launch []) acceptedPrefs)" SIGSEGV
      noGuiBuild 1 "[]" "launch []" acceptedPrefs]
  note int = handler_runs_once [of "snd (main noGuiBuild (launch []) acceptedPrefs)" SIGINT
      noGuiBuild 1 "[]" "launch []" acceptedPrefs]
  from segv unix started
  have d1: "disposition (snd (main noGuiBuild (launch []) acceptedPrefs)) SIGSEGV = SigAbnormalHandler"
    and d2: "disposition (snd (main noGuiBuild (launch []) acceptedPrefs)) SIGINT = SigNormalHandler"
    by blast+
  from segv d1 have r1: "disposition (deliver noGuiBuild SIGSEGV (snd (main noGuiBuild (launch []) acceptedPrefs))) SIGSEGV = SIG_DFL"
    and r2: "deliver noGuiBuild SIGSEGV (deliver noGuiBuild SIGSEGV (snd (main noGuiBuild (launch []) acceptedPrefs)))
     = emit (DefaultAction SIGSEGV)
         (deliver noGuiBuild SIGSEGV (snd (main noGuiBuild (launch []) acceptedPrefs)))"
    by simp_all
  from int d2 have r3: "disposition (deliver noGuiBuild SIGINT (snd (main noGuiBuild (launch []) acceptedPrefs))) SIGINT = SIG_DFL"
    by simp
  from started d1 d2 r1 r2 r3 show ?thesis by blast
qed


section \<open>The start-up sequence\<close>

text \<open>
  Claim C1, as the code has it. In every run the steps come in the order ParseArgs,
  Consent, CheckSingleton, RunMigrations, Daemonize, ReacquireSingleton,
  InstallSignalHandlers, StartEngine: the legal notice is dealt with before the
  already-running check, not after it. Every step begins only after the steps before
  it have succeeded: the notice is shown only to a run whose arguments were accepted;
  \<^verbatim>\<open>isRunning\<close> is asked only if, besides, the notice was not declined; \<^verbatim>\<open>upgrade\<close> runs
  only after \<^verbatim>\<open>isRunning\<close> answered no; \<^verbatim>\<open>daemon()\<close> is called only after \<^verbatim>\<open>upgrade\<close>
  returned true; the second \<^verbatim>\<open>isRunning\<close> is asked only after \<^verbatim>\<open>daemon()\<close> returned 0;
  the handlers are installed, and \<^verbatim>\<open>app->exec\<close> is called, only after all of that, and
  the exit status is then the result of \<^verbatim>\<open>app->exec\<close>. Every failing or leaving
  event is the last event of its run, and so is a declined notice.
\<close>

theorem startup_order:
  "sorted (map (rank \<circ> lifecycleOf) (traceOf cfg w pr)) \<and>
   (\<forall>e \<in> set (traceOf cfg w pr). terminal e \<longrightarrow> last (traceOf cfg w pr) = e) \<and>
   (LegalNoticeShown \<in> set (traceOf cfg w pr) \<longrightarrow> argsAccepted cfg w pr) \<and>
   (argsAccepted cfg w pr \<and> declined cfg w pr \<longrightarrow>
      last (traceOf cfg w pr) = LegalNoticeShown \<and> statusOf cfg w pr = EXIT_SUCCESS) \<and>
   (IsRunning 1 r \<in> set (traceOf cfg w pr) \<longrightarrow> argsAccepted cfg w pr \<and> \<not> declined cfg w pr) \<and>
   (Upgrade a r \<in> set (traceOf cfg w pr) \<longrightarrow> IsRunning 1 False \<in> set (traceOf cfg w pr)) \<and>
   (Daemon d \<in> set (traceOf cfg w pr) \<longrightarrow> (\<exists>a. Upgrade a True \<in> set (traceOf cfg w pr))) \<and>
   (IsRunning 2 r \<in> set (traceOf cfg w pr) \<longrightarrow> Daemon 0 \<in> set (traceOf cfg w pr)) \<and>
   (Signal s h \<in> set (traceOf cfg w pr) \<longrightarrow>
      (\<exists>a. Upgrade a True \<in> set (traceOf cfg w pr)) \<and>
      (daemonMode cfg (paramsOf cfg w pr) \<longrightarrow> IsRunning 2 False \<in> set (traceOf cfg w pr))) \<and>
   (Exec n ts \<in> set (traceOf cfg w pr) \<longrightarrow>
      IsRunning 1 False \<in> set (traceOf cfg w pr) \<and>
      (\<exists>a. Upgrade a True \<in> set (traceOf cfg w pr)) \<and>
      (daemonMode cfg (paramsOf cfg w pr) \<longrightarrow>
         Daemon 0 \<in> set (traceOf cfg w pr) \<and> IsRunning 2 False \<in> set (traceOf cfg w pr)) \<and>
      (Q_OS_UNIX cfg \<or> STACKTRACE_WIN cfg \<longrightarrow>
         Signal SIGSEGV SigAbnormalHandler \<in> set (traceOf cfg w pr)) \<and>
      last (traceOf cfg w pr) = Exec n ts \<and> statusOf cfg w pr = execResult w)"
proof -
  have notice: "argsAccepted cfg w pr" if "LegalNoticeShown \<in> set (traceOf cfg w pr)"
    using that by (simp add: notice_shown_iff)
  have refused: "last (traceOf cfg w pr) = LegalNoticeShown \<and> statusOf cfg w pr = EXIT_SUCCESS"
    if "argsAccepted cfg w pr" and "declined cfg w pr"
  proof -
    from that have k: "exitStep cfg w pr = 6"
      by (intro exitStep_declined) (simp_all add: reach_legal)
    from that(2) have "segments cfg w pr ! 6 = [] @ [LegalNoticeShown]"
      by (simp add: segments_nth legalEvents_def declined_def paramsOf_def)
    with k have "last (traceOf cfg w pr) = LegalNoticeShown" by (rule last_at_exit)
    then show ?thesis by (simp add: statusOf_eq exitStatus_def k)
  qed
  have first: "argsAccepted cfg w pr \<and> \<not> declined cfg w pr"
    if "IsRunning 1 r \<in> set (traceOf cfg w pr)"
    using that by (simp add: in_traceOf_iff reach_singleton)
  have upgrade: "IsRunning 1 False \<in> set (traceOf cfg w pr)"
    if "Upgrade a r \<in> set (traceOf cfg w pr)"
    using that by (intro first_check_in_trace) (simp add: in_traceOf_iff)
  have daemon: "\<exists>a. Upgrade a True \<in> set (traceOf cfg w pr)"
    if "Daemon d \<in> set (traceOf cfg w pr)"
    using that by (intro upgrade_in_trace) (simp add: in_traceOf_iff)
  have second: "Daemon 0 \<in> set (traceOf cfg w pr)"
    if "IsRunning 2 r \<in> set (traceOf cfg w pr)"
    using that
    by (intro daemon_in_trace)
       (auto simp: in_traceOf_iff segments_nth reacquireEvents_def split: if_splits)
  have handlers: "(\<exists>a. Upgrade a True \<in> set (traceOf cfg w pr)) \<and>
      (daemonMode cfg (paramsOf cfg w pr) \<longrightarrow> IsRunning 2 False \<in> set (traceOf cfg w pr))"
    if "Signal s h \<in> set (traceOf cfg w pr)"
  proof -
    from that have k: "12 \<le> exitStep cfg w pr" by (simp add: in_traceOf_iff)
    then have "10 \<le> exitStep cfg w pr" by simp
    then have "\<exists>a. Upgrade a True \<in> set (traceOf cfg w pr)" by (rule upgrade_in_trace)
    with k show ?thesis by (simp add: second_check_in_trace)
  qed
  have engine: "IsRunning 1 False \<in> set (traceOf cfg w pr) \<and>
      (\<exists>a. Upgrade a True \<in> set (traceOf cfg w pr)) \<and>
      (daemonMode cfg (paramsOf cfg w pr) \<longrightarrow>
         Daemon 0 \<in> set (traceOf cfg w pr) \<and> IsRunning 2 False \<in> set (traceOf cfg w pr)) \<and>
      (Q_OS_UNIX cfg \<or> STACKTRACE_WIN cfg \<longrightarrow>
         Signal SIGSEGV SigAbnormalHandler \<in> set (traceOf cfg w pr)) \<and>
      last (traceOf cfg w pr) = Exec n ts \<and> statusOf cfg w pr = execResult w"
    if "Exec n ts \<in> set (traceOf cfg w pr)"
  proof -
    from that have "13 \<le> exitStep cfg w pr"
      and ev: "Exec n ts \<in> set (execEvents cfg (paramsOf cfg w pr))"
      by (simp_all add: in_traceOf_iff segments_nth)
    with exitStep_le [of cfg w pr] have k: "exitStep cfg w pr = 13" by simp
    from ev have "segments cfg w pr ! 13 = [] @ [Exec n ts]"
      by (simp add: segments_nth execEvents_def)
    with k have "last (traceOf cfg w pr) = Exec n ts" by (rule last_at_exit)
    moreover have "Q_OS_UNIX cfg \<or> STACKTRACE_WIN cfg \<longrightarrow>
        Signal SIGSEGV SigAbnormalHandler \<in> set (traceOf cfg w pr)"
      by (simp add: in_traceOf_iff k segments_nth signalEvents_def)
    moreover have "IsRunning 1 False \<in> set (traceOf cfg w pr)"
      by (rule first_check_in_trace) (simp add: k)
    moreover have "\<exists>a. Upgrade a True \<in> set (traceOf cfg w pr)"
      by (rule upgrade_in_trace) (simp add: k)
    moreover have "Daemon 0 \<in> set (traceOf cfg w pr)" if "daemonMode cfg (paramsOf cfg w pr)"
      using that by (intro daemon_in_trace) (simp_all add: k)
    moreover have "IsRunning 2 False \<in> set (traceOf cfg w pr)"
      if "daemonMode cfg (paramsOf cfg w pr)"
      using that by (intro second_check_in_trace) (simp_all add: k)
    moreover have "statusOf cfg w pr = execResult w"
      by (simp add: statusOf_eq exitStatus_def k)
    ultimately show ?thesis by blast
  qed
  from sorted_lifecycle [of cfg w pr] terminal_last [of _ cfg w pr]
    notice refused first upgrade daemon second handlers engine
  show ?thesis by blast
qed


theorem startup_order_witness:
  "Exec 1 [] \<in> set (traceOf noGuiBuild (launch []) acceptedPrefs) \<and>
   last (traceOf noGuiBuild (launch []) acceptedPrefs) = Exec 1 [] \<and>
   IsRunning 1 False \<in> set (traceOf noGuiBuild (launch []) acceptedPrefs) \<and>
   Signal SIGSEGV SigAbnormalHandler \<in> set (traceOf noGuiBuild (launch []) acceptedPrefs) \<and>
   sorted (map (rank \<circ> lifecycleOf) (traceOf noGuiBuild (launch []) acceptedPrefs)) \<and>
   IsRunning 2 True
     \<in> set (traceOf noGuiBuild ((launch [''-d''])\<lparr>isRunning := (\<lambda>n. n = 2)\<rparr>) acceptedPrefs) \<and>
   Daemon 0
     \<in> set (traceOf noGuiBuild ((launch [''-d''])\<lparr>isRunning := (\<lambda>n. n = 2)\<rparr>) acceptedPrefs) \<and>
   last (traceOf noGuiBuild ((launch [''-d''])\<lparr>isRunning := (\<lambda>n. n = 2)\<rparr>) acceptedPrefs)
     = IsRunning 2 True \<and>
   LegalNoticeShown \<in> set (traceOf guiBuild ((launch [])\<lparr>clickedAgree := False\<rparr>) freshPrefs) \<and>
   argsAccepted guiBuild ((launch [])\<lparr>clickedAgree := False\<rparr>) freshPrefs \<and>
   declined guiBuild ((launch [])\<lparr>clickedAgree := False\<rparr>) freshPrefs \<and>
   last (traceOf guiBuild ((launch [])\<lparr>clickedAgree := False\<rparr>) freshPrefs) = LegalNoticeShown \<and>
   DisplayBadArgMessage (UnknownParameter ''--bogus'')
     \<in> set (traceOf guiBuild (launch [''--bogus'']) freshPrefs) \<and>
   last (traceOf guiBuild (launch [''--bogus'']) freshPrefs)
     = DisplayBadArgMessage (UnknownParameter ''--bogus'')"
proof -
  note plain = startup_order [where cfg = noGuiBuild and w = "launch []"
      and pr = acceptedPrefs and n = 1 and ts = "[]"]
  note race = startup_order [where cfg = noGuiBuild
      and w = "(launch [''-d''])\<lparr>isRunning := (\<lambda>n. n = 2)\<rparr>" and pr = acceptedPrefs
      and r = True]
  note cancel = startup_order [where cfg = guiBuild
      and w = "(launch [])\<lparr>clickedAgree := False\<rparr>" and pr = freshPrefs]
  note bogus = startup_order [where cfg = guiBuild and w = "launch [''--bogus'']"
      and pr = freshPrefs]
  have started: "Exec 1 [] \<in> set (traceOf noGuiBuild (launch []) acceptedPrefs)"
    by code_simp
  have unix: "Q_OS_UNIX noGuiBuild"
    by (simp add: noGuiBuild_def)
  have lost: "IsRunning 2 True
      \<in> set (traceOf noGuiBuild ((launch [''-d''])\<lparr>isRunning := (\<lambda>n. n = 2)\<rparr>) acceptedPrefs)"
    by code_simp
  have shown: "LegalNoticeShown \<in> set (traceOf guiBuild ((launch [])\<lparr>clickedAgree := False\<rparr>) freshPrefs)"
    by code_simp
  have no: "declined guiBuild ((launch [])\<lparr>clickedAgree := False\<rparr>) freshPrefs"
    by code_simp
  have msg: "DisplayBadArgMessage (UnknownParameter ''--bogus'')
      \<in> set (traceOf guiBuild (launch [''--bogus'']) freshPrefs)"
    by code_simp
  have stop: "terminal (DisplayBadArgMessage (UnknownParameter ''--bogus''))"
      "terminal (IsRunning 2 True)"
    by simp_all
  from plain started unix
  have r1: "last (traceOf noGuiBuild (launch []) acceptedPrefs) = Exec 1 [] \<and>
      IsRunning 1 False \<in> set (traceOf noGuiBuild (launch []) acceptedPrefs) \<and>
      Signal SIGSEGV SigAbnormalHandler \<in> set (traceOf noGuiBuild (launch []) acceptedPrefs) \<and>
      sorted (map (rank \<circ> lifecycleOf) (traceOf noGuiBuild (launch []) acceptedPrefs))"
    by simp
  from race lost stop
  have r2: "Daemon 0
      \<in> set (traceOf noGuiBuild ((launch [''-d''])\<lparr>isRunning := (\<lambda>n. n = 2)\<rparr>) acceptedPrefs) \<and>
    last (traceOf noGuiBuild ((launch [''-d''])\<lparr>isRunning := (\<lambda>n. n = 2)\<rparr>) acceptedPrefs)
      = IsRunning 2 True"
    by blast
  from cancel shown
  have r3: "argsAccepted guiBuild ((launch [])\<lparr>clickedAgree := False\<rparr>) freshPrefs"
    by simp
  with cancel no
  have r4: "last (traceOf guiBuild ((launch [])\<lparr>clickedAgree := False\<rparr>) freshPrefs) = LegalNoticeShown"
    by simp
  from bogus msg stop
  have r5: "last (traceOf guiBuild (launch [''--bogus'']) freshPrefs)
      = DisplayBadArgMessage (UnknownParameter ''--bogus'')"
    by blast
  from started r1 lost r2 shown r3 no r4 msg r5 show ?thesis by (simp only: simp_thms)
qed

text \<open>
  Claim C1 as stated fails on the order of the first two steps: in the GUI build, a
  first launch of a user who agrees shows the legal notice and records the answer
  before \<^verbatim>\<open>isRunning\<close> is asked (lines 195-204 come before line 207), so the trace is
  not in the order that puts CheckSingleton before Consent.
\<close>

theorem singleton_check_after_notice:
  "traceOf guiBuild (launch []) freshPrefs =
     [MigrateRSS, NewApplication 1, SetWebUiPort 8080, Qputenv ''QBITTORRENT'',
      LegalNoticeShown, SetAcceptedLegal True, IsRunning 1 False, Upgrade None True,
      ShowSplashScreen, Signal SIGINT SigNormalHandler, Signal SIGTERM SigNormalHandler,
      Signal SIGABRT SigAbnormalHandler, Signal SIGSEGV SigAbnormalHandler, Exec 1 []] \<and>
   lifecycleOf LegalNoticeShown = Consent \<and> lifecycleOf (IsRunning 1 False) = CheckSingleton \<and>
   \<not> sorted (map (rankSingletonFirst \<circ> lifecycleOf) (traceOf guiBuild (launch []) freshPrefs))"
proof -
  have run: "traceOf guiBuild (launch []) freshPrefs =
     [MigrateRSS, NewApplication 1, SetWebUiPort 8080, Qputenv ''QBITTORRENT'',
      LegalNoticeShown, SetAcceptedLegal True, IsRunning 1 False, Upgrade None True,
      ShowSplashScreen, Signal SIGINT SigNormalHandler, Signal SIGTERM SigNormalHandler,
      Signal SIGABRT SigAbnormalHandler, Signal SIGSEGV SigAbnormalHandler, Exec 1 []]"
    by code_simp
  have steps: "lifecycleOf LegalNoticeShown = Consent \<and>
      lifecycleOf (IsRunning 1 False) = CheckSingleton"
    by (simp add: lifecycleOf_def lifecycleOfStep_def)
  have "\<not> sorted (map (rankSingletonFirst \<circ> lifecycleOf) (traceOf guiBuild (launch []) freshPrefs))"
    unfolding run by (simp add: lifecycleOf_def lifecycleOfStep_def)
  with run steps show ?thesis by (simp only: simp_thms)
qed

section \<open>Another instance is running\<close>

lemma exitStep_running:
  "argsAccepted cfg w pr \<Longrightarrow> \<not> declined cfg w pr \<Longrightarrow> isRunning w 1 \<Longrightarrow> exitStep cfg w pr = 7"
  by (auto simp add: exitStep_def argsAccepted_def declined_def Let_def)

lemma running_instance_run:
  assumes "argsAccepted cfg w pr" and "\<not> declined cfg w pr" and "isRunning w 1"
  shows "(\<not> daemonMode cfg (paramsOf cfg w pr) \<longrightarrow>
            statusOf cfg w pr = EXIT_SUCCESS \<and> statusOf cfg w pr = 0 \<and>
            (\<exists>pre. traceOf cfg w pr =
               pre @ [IsRunning 1 True, QDebug ''qBittorrent is already running for this user.'',
                      Msleep 300, SendParams 1 (torrents (paramsOf cfg w pr))])) \<and>
         (daemonMode cfg (paramsOf cfg w pr) \<longrightarrow>
            statusOf cfg w pr = EXIT_FAILURE \<and> statusOf cfg w pr \<noteq> 0 \<and>
            (\<exists>pre. traceOf cfg w pr =
               pre @ [IsRunning 1 True, DisplayBadArgMessage AlreadyRunningDaemon])) \<and>
         (\<forall>n ts. Exec n ts \<notin> set (traceOf cfg w pr))"
proof -
  from assms have k: "exitStep cfg w pr = 7" by (rule exitStep_running)
  have tr: "traceOf cfg w pr =
      concat (take 7 (segments cfg w pr)) @ runningEvents cfg w (paramsOf cfg w pr)"
    by (simp add: trace_exit k segments_nth)
  have st: "statusOf cfg w pr =
      (if daemonMode cfg (paramsOf cfg w pr) then EXIT_FAILURE else EXIT_SUCCESS)"
    by (simp add: statusOf_eq exitStatus_def k paramsOf_def)
  have no_exec: "Exec n ts \<notin> set (traceOf cfg w pr)" for n ts
    by (simp add: in_traceOf_iff k)
  from assms(3) tr st no_exec show ?thesis
    by (simp add: runningEvents_def EXIT_FAILURE_def EXIT_SUCCESS_def)
qed

lemma query_needs_check:
  assumes "IsRunning k r \<in> set (traceOf cfg w pr)"
  shows "argsAccepted cfg w pr \<and> \<not> declined cfg w pr"
proof -
  from assms have "7 \<le> exitStep cfg w pr"
    by (auto simp: in_traceOf_iff split: if_splits)
  then show ?thesis by (simp add: reach_singleton)
qed

lemma handoff_needs_owner:
  assumes "SendParams k ts \<in> set (traceOf cfg w pr)"
  shows "argsAccepted cfg w pr \<and> \<not> declined cfg w pr \<and> isRunning w 1 \<and>
         \<not> daemonMode cfg (paramsOf cfg w pr) \<and> k = 1 \<and> ts = torrents (paramsOf cfg w pr)"
proof -
  from assms have k: "7 \<le> exitStep cfg w pr"
    and ev: "SendParams k ts \<in> set (runningEvents cfg w (paramsOf cfg w pr))"
    by (simp_all add: in_traceOf_iff segments_nth)
  from k have "argsAccepted cfg w pr \<and> \<not> declined cfg w pr" by (simp add: reach_singleton)
  moreover from ev have "isRunning w 1 \<and> \<not> daemonMode cfg (paramsOf cfg w pr) \<and> k = 1 \<and>
      ts = torrents (paramsOf cfg w pr)"
    by (auto simp: runningEvents_def split: if_splits)
  ultimately show ?thesis by simp
qed

text \<open>
  Claim C2, as the code has it. When a run reaches the already-running check (its
  arguments passed the checks of lines 150-189 and the legal notice was not declined)
  and another instance answers: outside daemonize mode the process logs, sleeps 300 ms,
  hands its torrent list to the running instance with \<^verbatim>\<open>sendParams\<close> and returns 0;
  in daemonize mode it prints the diagnostic and returns \<^verbatim>\<open>EXIT_FAILURE\<close>. In both
  cases \<^verbatim>\<open>app->exec\<close> is never called. A run that stops before the check (its
  arguments were refused, or the legal notice was declined) never calls
  \<^verbatim>\<open>isRunning\<close> and never calls \<^verbatim>\<open>sendParams\<close>. And \<^verbatim>\<open>sendParams\<close> is called in no
  other run: a hand-off in the trace means that the run reached the check, another
  instance answered, the build or the arguments did not ask for daemonize mode, and
  what was handed over, through the first application object, is the parsed torrent
  list.
\<close>

theorem already_running_handoff:
  "(argsAccepted cfg w pr \<and> \<not> declined cfg w pr \<and> isRunning w 1 \<longrightarrow>
      (\<not> daemonMode cfg (paramsOf cfg w pr) \<longrightarrow>
         statusOf cfg w pr = EXIT_SUCCESS \<and> statusOf cfg w pr = 0 \<and>
         (\<exists>pre. traceOf cfg w pr =
            pre @ [IsRunning 1 True, QDebug ''qBittorrent is already running for this user.'',
                   Msleep 300, SendParams 1 (torrents (paramsOf cfg w pr))])) \<and>
      (daemonMode cfg (paramsOf cfg w pr) \<longrightarrow>
         statusOf cfg w pr = EXIT_FAILURE \<and> statusOf cfg w pr \<noteq> 0 \<and>
         (\<exists>pre. traceOf cfg w pr =
            pre @ [IsRunning 1 True, DisplayBadArgMessage AlreadyRunningDaemon])) \<and>
      (\<forall>n ts. Exec n ts \<notin> set (traceOf cfg w pr))) \<and>
   (\<not> (argsAccepted cfg w pr \<and> \<not> declined cfg w pr) \<longrightarrow>
      (\<forall>k r. IsRunning k r \<notin> set (traceOf cfg w pr)) \<and>
      (\<forall>k ts. SendParams k ts \<notin> set (traceOf cfg w pr))) \<and>
   (SendParams k ts \<in> set (traceOf cfg w pr) \<longrightarrow>
      argsAccepted cfg w pr \<and> \<not> declined cfg w pr \<and> isRunning w 1 \<and>
      \<not> daemonMode cfg (paramsOf cfg w pr) \<and> k = 1 \<and> ts = torrents (paramsOf cfg w pr))"
proof -
  have early: "(\<forall>k r. IsRunning k r \<notin> set (traceOf cfg w pr)) \<and>
      (\<forall>k ts. SendParams k ts \<notin> set (traceOf cfg w pr))"
    if "\<not> (argsAccepted cfg w pr \<and> \<not> declined cfg w pr)"
    using that query_needs_check [of _ _ cfg w pr] handoff_needs_owner [of _ _ cfg w pr]
    by blast
  from running_instance_run [of cfg w pr] early handoff_needs_owner [of k ts cfg w pr]
  show ?thesis by blast
qed

theorem already_running_handoff_witness:
  "argsAccepted guiBuild ((launch [''magnet:?xt=abc''])\<lparr>isRunning := (\<lambda>n. True)\<rparr>) acceptedPrefs \<and>
   \<not> declined guiBuild ((launch [''magnet:?xt=abc''])\<lparr>isRunning := (\<lambda>n. True)\<rparr>) acceptedPrefs \<and>
   isRunning ((launch [''magnet:?xt=abc''])\<lparr>isRunning := (\<lambda>n. True)\<rparr>) 1 \<and>
   \<not> daemonMode guiBuild (paramsOf guiBuild ((launch [''magnet:?xt=abc''])\<lparr>isRunning := (\<lambda>n. True)\<rparr>) acceptedPrefs) \<and>
   statusOf guiBuild ((launch [''magnet:?xt=abc''])\<lparr>isRunning := (\<lambda>n. True)\<rparr>) acceptedPrefs = 0 \<and>
   argsAccepted noGuiBuild ((launch [''-d''])\<lparr>isRunning := (\<lambda>n. True)\<rparr>) acceptedPrefs \<and>
   \<not> declined noGuiBuild ((launch [''-d''])\<lparr>isRunning := (\<lambda>n. True)\<rparr>) acceptedPrefs \<and>
   daemonMode noGuiBuild (paramsOf noGuiBuild ((launch [''-d''])\<lparr>isRunning := (\<lambda>n. True)\<rparr>) acceptedPrefs) \<and>
   statusOf noGuiBuild ((launch [''-d''])\<lparr>isRunning := (\<lambda>n. True)\<rparr>) acceptedPrefs = EXIT_FAILURE \<and>
   declined guiBuild
     ((launch [''magnet:?xt=abc''])\<lparr>isRunning := (\<lambda>n. True), clickedAgree := False\<rparr>) freshPrefs \<and>
   IsRunning 1 True \<notin> set (traceOf guiBuild
     ((launch [''magnet:?xt=abc''])\<lparr>isRunning := (\<lambda>n. True), clickedAgree := False\<rparr>) freshPrefs) \<and>
   SendParams 1 [''magnet:?xt=abc''] \<notin> set (traceOf guiBuild
     ((launch [''magnet:?xt=abc''])\<lparr>isRunning := (\<lambda>n. True), clickedAgree := False\<rparr>) freshPrefs) \<and>
   SendParams 1 [''magnet:?xt=abc''] \<in> set (traceOf guiBuild
     ((launch [''magnet:?xt=abc''])\<lparr>isRunning := (\<lambda>n. True)\<rparr>) acceptedPrefs)"
proof -
  have a1: "argsAccepted guiBuild ((launch [''magnet:?xt=abc''])\<lparr>isRunning := (\<lambda>n. True)\<rparr>) acceptedPrefs"
    by code_simp
  have a2: "\<not> declined guiBuild ((launch [''magnet:?xt=abc''])\<lparr>isRunning := (\<lambda>n. True)\<rparr>) acceptedPrefs"
    by code_simp
  have a3: "isRunning ((launch [''magnet:?xt=abc''])\<lparr>isRunning := (\<lambda>n. True)\<rparr>) 1"
    by simp
  have a4: "\<not> daemonMode guiBuild (paramsOf guiBuild ((launch [''magnet:?xt=abc''])\<lparr>isRunning := (\<lambda>n. True)\<rparr>) acceptedPrefs)"
    by code_simp
  have a5: "SendParams 1 [''magnet:?xt=abc''] \<in> set (traceOf guiBuild
      ((launch [''magnet:?xt=abc''])\<lparr>isRunning := (\<lambda>n. True)\<rparr>) acceptedPrefs)"
    by code_simp
  have b1: "argsAccepted noGuiBuild ((launch [''-d''])\<lparr>isRunning := (\<lambda>n. True)\<rparr>) acceptedPrefs"
    by code_simp
  have b2: "\<not> declined noGuiBuild ((launch [''-d''])\<lparr>isRunning := (\<lambda>n. True)\<rparr>) acceptedPrefs"
    by code_simp
  have b3: "isRunning ((launch [''-d''])\<lparr>isRunning := (\<lambda>n. True)\<rparr>) 1"
    by simp
  have b4: "daemonMode noGuiBuild (paramsOf noGuiBuild ((launch [''-d''])\<lparr>isRunning := (\<lambda>n. True)\<rparr>) acceptedPrefs)"
    by code_simp
  have c1: "declined guiBuild
      ((launch [''magnet:?xt=abc''])\<lparr>isRunning := (\<lambda>n. True), clickedAgree := False\<rparr>) freshPrefs"
    by code_simp
  note owner = already_running_handoff [where cfg = guiBuild
      and w = "(launch [''magnet:?xt=abc''])\<lparr>isRunning := (\<lambda>n. True)\<rparr>" and pr = acceptedPrefs
      and k = 1 and ts = "[''magnet:?xt=abc'']"]
  note daemon = already_running_handoff [where cfg = noGuiBuild
      and w = "(launch [''-d''])\<lparr>isRunning := (\<lambda>n. True)\<rparr>" and pr = acceptedPrefs]
  note cancel = already_running_handoff [where cfg = guiBuild
      and w = "(launch [''magnet:?xt=abc''])\<lparr>isRunning := (\<lambda>n. True), clickedAgree := False\<rparr>"
      and pr = freshPrefs]
  from owner a1 a2 a3 a4 a5
  have r1: "statusOf guiBuild ((launch [''magnet:?xt=abc''])\<lparr>isRunning := (\<lambda>n. True)\<rparr>) acceptedPrefs = 0"
    by blast
  from daemon b1 b2 b3 b4
  have r2: "statusOf noGuiBuild ((launch [''-d''])\<lparr>isRunning := (\<lambda>n. True)\<rparr>) acceptedPrefs = EXIT_FAILURE"
    by blast
  from cancel c1
  have r3: "IsRunning 1 True \<notin> set (traceOf guiBuild
        ((launch [''magnet:?xt=abc''])\<lparr>isRunning := (\<lambda>n. True), clickedAgree := False\<rparr>) freshPrefs) \<and>
      SendParams 1 [''magnet:?xt=abc''] \<notin> set (traceOf guiBuild
        ((launch [''magnet:?xt=abc''])\<lparr>isRunning := (\<lambda>n. True), clickedAgree := False\<rparr>) freshPrefs)"
    by blast
  from a1 a2 a3 a4 r1 b1 b2 b4 r2 c1 r3 a5 show ?thesis by (simp only: simp_thms)
qed

text \<open>
  Claim C2 as stated, for every invocation, fails: the legal notice comes before the
  already-running check (lines 195-204 before line 207). In the GUI build, with another
  instance running and the notice not yet accepted, a user who clicks Cancel makes
  \<^verbatim>\<open>main\<close> return 0 without any \<^verbatim>\<open>isRunning\<close> query and without \<^verbatim>\<open>sendParams\<close>.
\<close>

theorem declined_notice_skips_handoff:
  "isRunning ((launch [''magnet:?xt=abc''])\<lparr>isRunning := (\<lambda>n. True), clickedAgree := False\<rparr>) 1 \<and>
   traceOf guiBuild ((launch [''magnet:?xt=abc''])\<lparr>isRunning := (\<lambda>n. True), clickedAgree := False\<rparr>) freshPrefs
     = [MigrateRSS, NewApplication 1, SetWebUiPort 8080, Qputenv ''QBITTORRENT'', LegalNoticeShown] \<and>
   statusOf guiBuild ((launch [''magnet:?xt=abc''])\<lparr>isRunning := (\<lambda>n. True), clickedAgree := False\<rparr>) freshPrefs = 0"
  by code_simp


section \<open>The port option\<close>

text \<open>
  Claim C4, as the code has it. Take an argument list whose last \<^verbatim>\<open>--webui-port=\<close>
  token has the value \<open>v\<close>, and whose other tokens are neither unknown options nor
  the help or version flag. If \<open>v\<close> is the decimal numeral of an integer \<open>N\<close> (with a
  minus sign when \<open>N\<close> is negative) and 1 \<open>\<le>\<close> \<open>N\<close> \<open>\<le>\<close> 65535, the parsed port is
  \<open>N\<close>, \<^verbatim>\<open>setWebUiPort(N)\<close> is called and the stored port is \<open>N\<close> at exit. If \<open>v\<close> is
  the numeral of an integer outside that range (negative, zero or above 65535), or if
  \<open>v\<close> is not a number, holds no further \<^verbatim>\<open>=\<close> and the token does not end in
  \<^verbatim>\<open>.torrent\<close>, then \<^verbatim>\<open>main\<close> prints the bad-port message and returns
  \<^verbatim>\<open>EXIT_FAILURE\<close> with the stored preferences unchanged: nothing is clamped. In
  general, for every value \<open>v\<close> that holds no \<^verbatim>\<open>=\<close>, in a token that does not end in
  \<^verbatim>\<open>.torrent\<close>, the parsed port is \<^verbatim>\<open>v.toInt()\<close>; \<^verbatim>\<open>main\<close> applies it when it lies in
  1..65535 and rejects it in this way otherwise.
\<close>

theorem port_argument:
  assumes "drop 1 (appArguments w) = pre @ (''--webui-port='' @ v) # post"
    and "\<forall>a \<in> set pre. \<not> unknownFlag cfg a \<and> \<not> helpOrVersion cfg a"
    and "\<forall>a \<in> set post. \<not> unknownFlag cfg a \<and> \<not> helpOrVersion cfg a \<and>
           \<not> startsWith a ''--webui-port=''"
  shows "(v = decimalInt N \<and> 1 \<le> N \<and> N \<le> 65535 \<longrightarrow>
            webUiPort (paramsOf cfg w pr) = N \<and>
            SetWebUiPort N \<in> set (traceOf cfg w pr) \<and>
            prefWebUiPort (prefs (snd (main cfg w pr))) = N) \<and>
         ((v = decimalInt N \<and> \<not> (1 \<le> N \<and> N \<le> 65535)) \<or>
          (malformed v \<and> CHR ''='' \<notin> set v \<and> \<not> endsWith (''--webui-port='' @ v) ''.torrent'') \<longrightarrow>
            statusOf cfg w pr = EXIT_FAILURE \<and> statusOf cfg w pr \<noteq> 0 \<and>
            traceOf cfg w pr = startupEvents cfg @ [DisplayBadArgMessage BadPort] \<and>
            prefs (snd (main cfg w pr)) = pr) \<and>
         (CHR ''='' \<notin> set v \<and> \<not> endsWith (''--webui-port='' @ v) ''.torrent'' \<longrightarrow>
            webUiPort (paramsOf cfg w pr) = toInt v \<and>
            (portValid (toInt v) \<longrightarrow>
               SetWebUiPort (toInt v) \<in> set (traceOf cfg w pr) \<and>
               prefWebUiPort (prefs (snd (main cfg w pr))) = toInt v) \<and>
            (\<not> portValid (toInt v) \<longrightarrow>
               statusOf cfg w pr = EXIT_FAILURE \<and> statusOf cfg w pr \<noteq> 0 \<and>
               traceOf cfg w pr = startupEvents cfg @ [DisplayBadArgMessage BadPort] \<and>
               prefs (snd (main cfg w pr)) = pr))"
proof -
  have general: "webUiPort (paramsOf cfg w pr) = toInt v \<and>
      (portValid (toInt v) \<longrightarrow>
         SetWebUiPort (toInt v) \<in> set (traceOf cfg w pr) \<and>
         prefWebUiPort (prefs (snd (main cfg w pr))) = toInt v) \<and>
      (\<not> portValid (toInt v) \<longrightarrow>
         statusOf cfg w pr = EXIT_FAILURE \<and> statusOf cfg w pr \<noteq> 0 \<and>
         traceOf cfg w pr = startupEvents cfg @ [DisplayBadArgMessage BadPort] \<and>
         prefs (snd (main cfg w pr)) = pr)"
    if "CHR ''='' \<notin> set v" and "\<not> endsWith (''--webui-port='' @ v) ''.torrent''"
    using port_token_run [OF assms(1) that assms(2,3), of pr] by (simp add: EXIT_FAILURE_def)
  have numeral: "CHR ''='' \<notin> set v \<and> \<not> endsWith (''--webui-port='' @ v) ''.torrent'' \<and>
      toInt v = (if - 2147483648 \<le> N \<and> N \<le> 2147483647 then N else 0)"
    if "v = decimalInt N"
    using that by (simp only: decimalInt_no_equals decimalInt_not_torrent toInt_decimalInt
        not_False_eq_True simp_thms)
  have in_range: "webUiPort (paramsOf cfg w pr) = N \<and>
      SetWebUiPort N \<in> set (traceOf cfg w pr) \<and>
      prefWebUiPort (prefs (snd (main cfg w pr))) = N"
    if "v = decimalInt N" and "1 \<le> N" and "N \<le> 65535"
  proof -
    from numeral [OF that(1)] that(2,3) have "toInt v = N" and "portValid (toInt v)"
      by (simp_all add: portValid_def)
    with general numeral [OF that(1)] show ?thesis by simp
  qed
  have out_of_range: "statusOf cfg w pr = EXIT_FAILURE \<and> statusOf cfg w pr \<noteq> 0 \<and>
      traceOf cfg w pr = startupEvents cfg @ [DisplayBadArgMessage BadPort] \<and>
      prefs (snd (main cfg w pr)) = pr"
    if "v = decimalInt N" and "\<not> (1 \<le> N \<and> N \<le> 65535)"
  proof -
    from numeral [OF that(1)] that(2) have "\<not> portValid (toInt v)"
      by (auto simp: portValid_def)
    with general numeral [OF that(1)] show ?thesis by simp
  qed
  have not_a_number: "statusOf cfg w pr = EXIT_FAILURE \<and> statusOf cfg w pr \<noteq> 0 \<and>
      traceOf cfg w pr = startupEvents cfg @ [DisplayBadArgMessage BadPort] \<and>
      prefs (snd (main cfg w pr)) = pr"
    if "malformed v" and "CHR ''='' \<notin> set v"
      and "\<not> endsWith (''--webui-port='' @ v) ''.torrent''"
  proof -
    from that(1) have "\<not> portValid (toInt v)"
      by (simp add: toInt_malformed portValid_def)
    with general [OF that(2,3)] show ?thesis by simp
  qed
  from general in_range out_of_range not_a_number show ?thesis by blast
qed


theorem port_argument_witness:
  "webUiPort (paramsOf guiBuild (launch [''a.torrent'', ''--webui-port=8081'']) acceptedPrefs) = 8081 \<and>
   SetWebUiPort 8081 \<in> set (traceOf guiBuild (launch [''a.torrent'', ''--webui-port=8081'']) acceptedPrefs) \<and>
   prefWebUiPort (prefs (snd (main guiBuild (launch [''a.torrent'', ''--webui-port=8081'']) acceptedPrefs))) = 8081 \<and>
   statusOf guiBuild (launch [''a.torrent'', ''--webui-port=70000'']) acceptedPrefs = EXIT_FAILURE \<and>
   traceOf guiBuild (launch [''a.torrent'', ''--webui-port=70000'']) acceptedPrefs =
     startupEvents guiBuild @ [DisplayBadArgMessage BadPort] \<and>
   statusOf guiBuild (launch [''a.torrent'', ''--webui-port=-80'']) acceptedPrefs = EXIT_FAILURE \<and>
   prefs (snd (main guiBuild (launch [''a.torrent'', ''--webui-port=-80'']) acceptedPrefs)) = acceptedPrefs \<and>
   malformed ''1 2'' \<and>
   statusOf guiBuild (launch [''a.torrent'', ''--webui-port=1 2'']) acceptedPrefs = EXIT_FAILURE \<and>
   prefs (snd (main guiBuild (launch [''a.torrent'', ''--webui-port=1 2'']) acceptedPrefs)) = acceptedPrefs"
proof -
  have pre: "\<forall>a \<in> set [''a.torrent'']. \<not> unknownFlag guiBuild a \<and> \<not> helpOrVersion guiBuild a"
    by code_simp
  have post: "\<forall>a \<in> set []. \<not> unknownFlag guiBuild a \<and> \<not> helpOrVersion guiBuild a \<and>
      \<not> startsWith a ''--webui-port=''"
    by simp
  have d1: "''8081'' = decimalInt 8081" and d2: "''70000'' = decimalInt 70000"
    and d3: "''-80'' = decimalInt (- 80)"
    by (simp add: decimalInt_def decimal.simps, code_simp)+
  have a1: "drop 1 (appArguments (launch [''a.torrent'', ''--webui-port=8081'']))
      = [''a.torrent''] @ (''--webui-port='' @ ''8081'') # []"
    by (simp add: launch_def)
  have a2: "drop 1 (appArguments (launch [''a.torrent'', ''--webui-port=70000'']))
      = [''a.torrent''] @ (''--webui-port='' @ ''70000'') # []"
    by (simp add: launch_def)
  have a3: "drop 1 (appArguments (launch [''a.torrent'', ''--webui-port=-80'']))
      = [''a.torrent''] @ (''--webui-port='' @ ''-80'') # []"
    by (simp add: launch_def)
  have a4: "drop 1 (appArguments (launch [''a.torrent'', ''--webui-port=1 2'']))
      = [''a.torrent''] @ (''--webui-port='' @ ''1 2'') # []"
    by (simp add: launch_def)
  have m: "malformed ''1 2''" and m1: "CHR ''='' \<notin> set ''1 2''"
    and m2: "\<not> endsWith (''--webui-port='' @ ''1 2'') ''.torrent''"
    by code_simp+
  from port_argument [OF a1 pre post, of 8081 acceptedPrefs] d1
  have r1: "webUiPort (paramsOf guiBuild (launch [''a.torrent'', ''--webui-port=8081'']) acceptedPrefs) = 8081 \<and>
      SetWebUiPort 8081 \<in> set (traceOf guiBuild (launch [''a.torrent'', ''--webui-port=8081'']) acceptedPrefs) \<and>
      prefWebUiPort (prefs (snd (main guiBuild (launch [''a.torrent'', ''--webui-port=8081'']) acceptedPrefs))) = 8081"
    by simp
  from port_argument [OF a2 pre post, of 70000 acceptedPrefs] d2
  have r2: "statusOf guiBuild (launch [''a.torrent'', ''--webui-port=70000'']) acceptedPrefs = EXIT_FAILURE \<and>
      traceOf guiBuild (launch [''a.torrent'', ''--webui-port=70000'']) acceptedPrefs =
        startupEvents guiBuild @ [DisplayBadArgMessage BadPort]"
    by simp
  from port_argument [OF a3 pre post, of "- 80" acceptedPrefs] d3
  have r3: "statusOf guiBuild (launch [''a.torrent'', ''--webui-port=-80'']) acceptedPrefs = EXIT_FAILURE \<and>
      prefs (snd (main guiBuild (launch [''a.torrent'', ''--webui-port=-80'']) acceptedPrefs)) = acceptedPrefs"
    by simp
  from port_argument [OF a4 pre post, of 0 acceptedPrefs] m m1 m2
  have r4: "statusOf guiBuild (launch [''a.torrent'', ''--webui-port=1 2'']) acceptedPrefs = EXIT_FAILURE \<and>
      prefs (snd (main guiBuild (launch [''a.torrent'', ''--webui-port=1 2'']) acceptedPrefs)) = acceptedPrefs"
    by blast
  from r1 r2 r3 m r4 show ?thesis by (simp only: simp_thms)
qed

text \<open>
  Claim C4 as stated, for every argument list that contains the token, fails. Of two
  port tokens the later one wins: with \<^verbatim>\<open>--webui-port=80 --webui-port=90\<close> the parsed
  port is 90. And with \<^verbatim>\<open>-h --webui-port=8081\<close> the parsed port is 8081, but \<^verbatim>\<open>main\<close>
  returns at the help check and \<^verbatim>\<open>setWebUiPort\<close> is never called.
\<close>

theorem port_argument_counterexample:
  "webUiPort (paramsOf guiBuild (launch [''--webui-port=80'', ''--webui-port=90'']) acceptedPrefs) = 90 \<and>
   webUiPort (paramsOf guiBuild (launch [''-h'', ''--webui-port=8081'']) acceptedPrefs) = 8081 \<and>
   traceOf guiBuild (launch [''-h'', ''--webui-port=8081'']) acceptedPrefs =
     [MigrateRSS, NewApplication 1, DisplayBadArgMessage (MustBeSingle ''-h (or --help)'')] \<and>
   statusOf guiBuild (launch [''-h'', ''--webui-port=8081'']) acceptedPrefs = 1"
  by code_simp


section \<open>A port option without a number\<close>

lemma split_acc_length: "length (split_acc sep cur s) = Suc (count_list s sep)"
  by (induction s arbitrary: cur) auto

lemma split_port_token_length:
  "length (split (''--webui-port='' @ v) (CHR ''='')) = 2 + count_list v (CHR ''='')"
  by (simp add: split_def split_acc_length)

lemma parseLoop_port_skipped:
  assumes "CHR ''='' \<in> set v" and "\<not> endsWith (''--webui-port='' @ v) ''.torrent''"
  shows "parseLoop cfg files r ((''--webui-port='' @ v) # rest) = parseLoop cfg files r rest"
proof -
  from assms(2) have "isFlag (''--webui-port='' @ v)"
    by (simp add: isFlag_def startsWith_def)
  moreover have "startsWith (''--webui-port='' @ v) ''--webui-port=''"
    by (simp add: startsWith_def)
  moreover from assms(1) have "0 < count_list v (CHR ''='')"
    by (induction v) auto
  then have "length (split (''--webui-port='' @ v) (CHR ''='')) \<noteq> 2"
    by (simp add: split_def split_acc_length)
  ultimately show ?thesis by (rule parseLoop_port_ignored)
qed

text \<open>
  Claim C3, as the code has it. What \<^verbatim>\<open>parseCommandLine\<close> does with a token
  \<^verbatim>\<open>--webui-port=\<close>\<open>v\<close> falls into three cases. If \<open>v\<close> holds no \<^verbatim>\<open>=\<close> and the token
  does not end in \<^verbatim>\<open>.torrent\<close>, the port of the request becomes \<^verbatim>\<open>v.toInt()\<close>; when
  \<open>v\<close> is empty or not a number that is 0, the result of the failed conversion, and
  not the stored port. If \<open>v\<close> holds a further \<^verbatim>\<open>=\<close> and the token does not end in
  \<^verbatim>\<open>.torrent\<close>, the token is skipped and the request stays as it was. If the token ends
  in \<^verbatim>\<open>.torrent\<close>, it is taken as a torrent source and the port stays as it was. A
  launch whose only argument is a token of the first kind with an empty or non-numeric
  value prints the bad-port message and returns \<^verbatim>\<open>EXIT_FAILURE\<close>, the stored
  preferences unchanged.
\<close>

theorem malformed_port_value:
  "(CHR ''='' \<notin> set v \<and> \<not> endsWith (''--webui-port='' @ v) ''.torrent'' \<longrightarrow>
      parseLoop cfg files r ((''--webui-port='' @ v) # rest) =
        parseLoop cfg files (r\<lparr>webUiPort := toInt v\<rparr>) rest \<and>
      (malformed v \<longrightarrow>
         toInt v = 0 \<and>
         parseLoop cfg files r ((''--webui-port='' @ v) # rest) =
           parseLoop cfg files (r\<lparr>webUiPort := 0\<rparr>) rest)) \<and>
   (CHR ''='' \<in> set v \<and> \<not> endsWith (''--webui-port='' @ v) ''.torrent'' \<longrightarrow>
      parseLoop cfg files r ((''--webui-port='' @ v) # rest) = parseLoop cfg files r rest) \<and>
   (endsWith (''--webui-port='' @ v) ''.torrent'' \<longrightarrow>
      parseLoop cfg files r ((''--webui-port='' @ v) # rest) =
        parseLoop cfg files
          (r\<lparr>torrents := torrents r @
              [if fileExists files (''--webui-port='' @ v)
               then absoluteFilePath files (''--webui-port='' @ v) else ''--webui-port='' @ v]\<rparr>)
          rest) \<and>
   (malformed v \<and> CHR ''='' \<notin> set v \<and> \<not> endsWith (''--webui-port='' @ v) ''.torrent'' \<and>
    drop 1 (appArguments w) = [''--webui-port='' @ v] \<longrightarrow>
      webUiPort (paramsOf cfg w pr) = 0 \<and>
      statusOf cfg w pr = EXIT_FAILURE \<and> statusOf cfg w pr \<noteq> 0 \<and>
      traceOf cfg w pr = startupEvents cfg @ [DisplayBadArgMessage BadPort] \<and>
      prefs (snd (main cfg w pr)) = pr)"
proof -
  have converted: "parseLoop cfg files r ((''--webui-port='' @ v) # rest) =
      parseLoop cfg files (r\<lparr>webUiPort := toInt v\<rparr>) rest"
    if "CHR ''='' \<notin> set v" and "\<not> endsWith (''--webui-port='' @ v) ''.torrent''"
    using that by (rule parseLoop_port_token)
  have zero: "toInt v = 0 \<and>
      parseLoop cfg files r ((''--webui-port='' @ v) # rest) =
        parseLoop cfg files (r\<lparr>webUiPort := 0\<rparr>) rest"
    if "malformed v" and "CHR ''='' \<notin> set v"
      and "\<not> endsWith (''--webui-port='' @ v) ''.torrent''"
    using parseLoop_port_token [OF that(2,3), of cfg files r rest]
    by (simp only: toInt_malformed [OF that(1)] simp_thms)
  have ignored: "parseLoop cfg files r ((''--webui-port='' @ v) # rest) = parseLoop cfg files r rest"
    if "CHR ''='' \<in> set v" and "\<not> endsWith (''--webui-port='' @ v) ''.torrent''"
    using that by (rule parseLoop_port_skipped)
  have source: "parseLoop cfg files r ((''--webui-port='' @ v) # rest) =
      parseLoop cfg files
        (r\<lparr>torrents := torrents r @
            [if fileExists files (''--webui-port='' @ v)
             then absoluteFilePath files (''--webui-port='' @ v) else ''--webui-port='' @ v]\<rparr>)
        rest"
    if t: "endsWith (''--webui-port='' @ v) ''.torrent''"
  proof -
    have "startsWith (''--webui-port='' @ v) ''--webui-port=''"
      by (simp add: startsWith_def)
    from this t show ?thesis by (rule parseLoop_torrent_name)
  qed
  have rejected: "webUiPort (paramsOf cfg w pr) = 0 \<and>
      statusOf cfg w pr = EXIT_FAILURE \<and> statusOf cfg w pr \<noteq> 0 \<and>
      traceOf cfg w pr = startupEvents cfg @ [DisplayBadArgMessage BadPort] \<and>
      prefs (snd (main cfg w pr)) = pr"
    if m: "malformed v" and e: "CHR ''='' \<notin> set v"
      and t: "\<not> endsWith (''--webui-port='' @ v) ''.torrent''"
      and args: "drop 1 (appArguments w) = [''--webui-port='' @ v]"
  proof -
    from args have "drop 1 (appArguments w) = [] @ (''--webui-port='' @ v) # []"
      by (simp only: append_Nil)
    from port_token_run [OF this e t, of cfg pr] m show ?thesis
      by (simp add: toInt_malformed portValid_def EXIT_FAILURE_def)
  qed
  from converted zero ignored source rejected show ?thesis by blast
qed

theorem malformed_port_value_witness:
  "malformed ''abc'' \<and> malformed [] \<and> malformed ''-'' \<and> malformed ''1 2'' \<and>
   webUiPort (parseLoop guiBuild noFiles (QBtCommandLineParameters_init guiBuild acceptedPrefs)
               [''--webui-port=abc'']) = 0 \<and>
   CHR ''='' \<in> set ''1=2'' \<and>
   parseLoop guiBuild noFiles (QBtCommandLineParameters_init guiBuild acceptedPrefs)
      [''--webui-port=1=2''] = QBtCommandLineParameters_init guiBuild acceptedPrefs \<and>
   endsWith ''--webui-port=abc.torrent'' ''.torrent'' \<and>
   webUiPort (parseLoop guiBuild noFiles (QBtCommandLineParameters_init guiBuild acceptedPrefs)
               [''--webui-port=abc.torrent'']) = 8080 \<and>
   torrents (parseLoop guiBuild noFiles (QBtCommandLineParameters_init guiBuild acceptedPrefs)
               [''--webui-port=abc.torrent'']) = [''--webui-port=abc.torrent''] \<and>
   webUiPort (paramsOf guiBuild (launch [''--webui-port='']) acceptedPrefs) = 0 \<and>
   statusOf guiBuild (launch [''--webui-port='']) acceptedPrefs = EXIT_FAILURE"
proof -
  have m: "malformed ''abc''" and m1: "CHR ''='' \<notin> set ''abc''"
    and m2: "\<not> endsWith (''--webui-port='' @ ''abc'') ''.torrent''"
    and m3: "malformed ''-''" and m4: "malformed ''1 2''"
    by code_simp+
  have n: "malformed []" and n1: "CHR ''='' \<notin> set []"
    and n2: "\<not> endsWith (''--webui-port='' @ []) ''.torrent''"
    by code_simp+
  have n3: "drop 1 (appArguments (launch [''--webui-port=''])) = [''--webui-port='' @ []]"
    by (simp add: launch_def)
  have i1: "CHR ''='' \<in> set ''1=2''"
    and i2: "\<not> endsWith (''--webui-port='' @ ''1=2'') ''.torrent''"
    by code_simp+
  have t1: "endsWith (''--webui-port='' @ ''abc.torrent'') ''.torrent''"
    and t2: "endsWith ''--webui-port=abc.torrent'' ''.torrent''"
    and t3: "\<not> fileExists noFiles (''--webui-port='' @ ''abc.torrent'')"
    by code_simp+
  note abc = malformed_port_value [where v = "''abc''" and cfg = guiBuild and files = noFiles
      and r = "QBtCommandLineParameters_init guiBuild acceptedPrefs" and rest = "[]"]
  note twice = malformed_port_value [where v = "''1=2''" and cfg = guiBuild and files = noFiles
      and r = "QBtCommandLineParameters_init guiBuild acceptedPrefs" and rest = "[]"]
  note named = malformed_port_value [where v = "''abc.torrent''" and cfg = guiBuild
      and files = noFiles and r = "QBtCommandLineParameters_init guiBuild acceptedPrefs"
      and rest = "[]"]
  note empty = malformed_port_value [where v = "[]" and cfg = guiBuild
      and w = "launch [''--webui-port='']" and pr = acceptedPrefs]
  from abc m m1 m2
  have r1: "webUiPort (parseLoop guiBuild noFiles (QBtCommandLineParameters_init guiBuild acceptedPrefs)
               [''--webui-port=abc'']) = 0"
    by simp
  from twice i1 i2
  have r2: "parseLoop guiBuild noFiles (QBtCommandLineParameters_init guiBuild acceptedPrefs)
      [''--webui-port=1=2''] = QBtCommandLineParameters_init guiBuild acceptedPrefs"
    by simp
  from named t1 t3
  have r3: "webUiPort (parseLoop guiBuild noFiles (QBtCommandLineParameters_init guiBuild acceptedPrefs)
               [''--webui-port=abc.torrent'']) = 8080 \<and>
      torrents (parseLoop guiBuild noFiles (QBtCommandLineParameters_init guiBuild acceptedPrefs)
               [''--webui-port=abc.torrent'']) = [''--webui-port=abc.torrent'']"
    by (simp add: QBtCommandLineParameters_init_def acceptedPrefs_def)
  from empty n n1 n2 n3
  have r4: "webUiPort (paramsOf guiBuild (launch [''--webui-port='']) acceptedPrefs) = 0 \<and>
      statusOf guiBuild (launch [''--webui-port='']) acceptedPrefs = EXIT_FAILURE"
    by blast
  from m n m3 m4 r1 i1 r2 t2 r3 r4 show ?thesis by (simp only: simp_thms)
qed

text \<open>
  Claim C3 as stated fails: with the stored port 8080, both \<^verbatim>\<open>--webui-port=abc\<close> and
  \<^verbatim>\<open>--webui-port=\<close> give the parsed port 0, and \<^verbatim>\<open>main\<close> returns 1 after the bad-port
  message.
\<close>

theorem malformed_port_value_counterexample:
  "prefWebUiPort acceptedPrefs = 8080 \<and>
   webUiPort (paramsOf guiBuild (launch [''--webui-port=abc'']) acceptedPrefs) = 0 \<and>
   statusOf guiBuild (launch [''--webui-port=abc'']) acceptedPrefs = 1 \<and>
   traceOf guiBuild (launch [''--webui-port=abc'']) acceptedPrefs =
     [MigrateRSS, NewApplication 1, DisplayBadArgMessage BadPort] \<and>
   webUiPort (paramsOf guiBuild (launch [''--webui-port='']) acceptedPrefs) = 0 \<and>
   statusOf guiBuild (launch [''--webui-port='']) acceptedPrefs = 1"
  by code_simp

end
